theory Spec2Isabelle
  imports Complex_Main "HOL-Library.Sublist"
begin

section \<open>The DLMM grid strategy (amm-strategy.ts) as a state-passing program\<close>

text \<open>
  The class \<^verbatim>\<open>AMMStrategy\<close> keeps a mutable \<^verbatim>\<open>PositionState\<close> and talks to two
  collaborators, the Cetus DLMM SDK and the Sui client. Every method is translated into a
  function from a machine state to a result and a new machine state. A rejected promise or
  a \<^verbatim>\<open>throw\<close> is the result \<open>Inl\<close>; \<^verbatim>\<open>try/catch\<close> is a combinator. The collaborators
  are not part of the repository: they are the fields of an environment record, each one an
  arbitrary (possibly failing) transformer of an abstract world state, so that a theorem about
  the strategy holds for every behaviour of the chain and of the SDK.
  \<^verbatim>\<open>console.log\<close>, \<^verbatim>\<open>console.warn\<close> and \<^verbatim>\<open>console.error\<close> have no effect on the state
  and are left out. The model covers one poll iteration and everything it calls, and the
  detection of the initial asset; \<^verbatim>\<open>start\<close>, \<^verbatim>\<open>stop\<close>, \<^verbatim>\<open>initializePool\<close> and the
  loop around the iteration are not modelled.
\<close>

subsection \<open>JavaScript numbers, as far as the strategy compares them\<close>

text \<open>
  \<^verbatim>\<open>parseFloat\<close> yields a number that the strategy only compares. A number is modelled
  as not-a-number, an infinity or a finite real; every comparison with \<open>NaN\<close> is false,
  as in JavaScript.
\<close>

datatype jsnum = NaN | NegInf | Fin real | PosInf

fun js_lt :: "jsnum \<Rightarrow> jsnum \<Rightarrow> bool" where
  "js_lt NaN _ = False"
| "js_lt _ NaN = False"
| "js_lt _ NegInf = False"
| "js_lt NegInf _ = True"
| "js_lt PosInf _ = False"
| "js_lt (Fin a) PosInf = True"
| "js_lt (Fin a) (Fin b) = (a < b)"

fun js_le :: "jsnum \<Rightarrow> jsnum \<Rightarrow> bool" where
  "js_le NaN _ = False"
| "js_le _ NaN = False"
| "js_le NegInf _ = True"
| "js_le _ PosInf = True"
| "js_le _ NegInf = False"
| "js_le PosInf _ = False"
| "js_le (Fin a) (Fin b) = (a \<le> b)"

definition js_gt :: "jsnum \<Rightarrow> jsnum \<Rightarrow> bool" where
  "js_gt a b = js_lt b a"

definition js_ge :: "jsnum \<Rightarrow> jsnum \<Rightarrow> bool" where
  "js_ge a b = js_le b a"

subsection \<open>Data model\<close>

datatype token = USDT | USDC

record StrategyConfig =
  upperPrice :: string
  lowerPrice :: string
  tokenA :: string
  tokenB :: string
  positionSize :: string
  binStep :: int
  senderAddress :: string
  poolId :: "string option"
  checkInterval :: nat
  slippage :: real

record balances =
  usdc :: string
  usdt :: string

record PositionState =
  currentToken :: token
  currentPositionId :: "string option"
  currentBinId :: "int option"
  lastActionTime :: nat
  totalProfit :: string
  currentBalance :: "balances option"

text \<open>
  JavaScript truthiness of an optional string, as tested by
  \<^verbatim>\<open>if (this.state.currentPositionId)\<close> and \<^verbatim>\<open>if (!this.poolAddress)\<close>:
  \<^verbatim>\<open>undefined\<close> and the empty string are falsy.
\<close>

fun truthy :: "string option \<Rightarrow> bool" where
  "truthy None = False"
| "truthy (Some s) = (s \<noteq> [])"

subsection \<open>What the collaborators return\<close>

record pool_info =
  active_id :: int
  bin_step :: int
  bin_manager_handle :: string
  reward_coins :: "string list"

record 'v position_info =
  lower_bin_id :: int
  upper_bin_id :: int
  liquidity_shares :: 'v

record bin_amounts =
  amount_a :: string
  amount_b :: string

record created_object =
  objectType :: "string option"
  objectId :: "string option"

record tx_event =
  event_type :: string
  event_positionId :: "string option"

record tx_effects =
  created :: "created_object list option"
  events :: "tx_event list option"

record tx_result =
  digest :: string
  effects :: "tx_effects option"

subsection \<open>Extracting the position id from a transaction result\<close>

text \<open>\<^verbatim>\<open>String.prototype.includes\<close>: the pattern occurs as a contiguous substring.\<close>

fun str_includes :: "string \<Rightarrow> string \<Rightarrow> bool" where
  "str_includes [] pat = (pat = [])"
| "str_includes (c # cs) pat = (prefix pat (c # cs) \<or> str_includes cs pat)"

text \<open>
  \<^verbatim>\<open>extractPositionId(result: any): string\<close>. The value returned is whatever the
  \<^verbatim>\<open>objectId\<close> or \<^verbatim>\<open>positionId\<close> property holds (possibly \<^verbatim>\<open>undefined\<close>, here \<open>None\<close>).
  The \<^verbatim>\<open>catch\<close> branch of the source returns the same constant as the fall-through
  and cannot be reached on a result of this shape.
\<close>

definition extractPositionId :: "tx_result \<Rightarrow> string option" where
  "extractPositionId result =
     (let createdObjects =
            (case effects result of None \<Rightarrow> []
             | Some ef \<Rightarrow> (case created ef of None \<Rightarrow> [] | Some cs \<Rightarrow> cs))
      in case find (\<lambda>obj. case objectType obj of None \<Rightarrow> False
                          | Some ty \<Rightarrow> str_includes ty ''position::Position'') createdObjects of
           Some positionObject \<Rightarrow> objectId positionObject
         | None \<Rightarrow>
            (let evs = (case effects result of None \<Rightarrow> []
                        | Some ef \<Rightarrow> (case events ef of None \<Rightarrow> [] | Some es \<Rightarrow> es))
             in case find (\<lambda>ev. event_type ev = ''position::PositionCreated'') evs of
                  Some ev \<Rightarrow> event_positionId ev
                | None \<Rightarrow> Some ''0xposition123''))"

subsection \<open>Arguments the strategy passes to the SDK\<close>

text \<open>
  The option objects built by the strategy, field by field. Fields that the source fills
  with a constant (\<^verbatim>\<open>strategy_type: StrategyType.Spot\<close>, \<^verbatim>\<open>use_bin_infos: false\<close>,
  \<^verbatim>\<open>collect_fee: true\<close>, \<^verbatim>\<open>reward_coins: []\<close>) are left out. Values of type \<open>'v\<close> are the
  SDK's own data (bin plans, share encodings, transactions) that the strategy passes on
  without looking inside.
\<close>

record calculateOption =
  co_coin_amount :: string
  co_fix_amount_a :: bool
  co_active_id :: int
  co_bin_step :: int
  co_lower_bin_id :: int
  co_upper_bin_id :: int
  co_amount_a_in_active_bin :: string
  co_amount_b_in_active_bin :: string

record 'v addLiquidityOption =
  al_pool_id :: "string option"
  al_bin_infos :: 'v
  al_coin_type_a :: string
  al_coin_type_b :: string
  al_active_id :: int
  al_position_id :: "string option"
  al_max_price_slippage :: real
  al_bin_step :: int

record 'v openPositionOption =
  op_pool_id :: "string option"
  op_bin_infos :: 'v
  op_coin_type_a :: string
  op_coin_type_b :: string
  op_lower_bin_id :: int
  op_upper_bin_id :: int
  op_active_id :: int
  op_max_price_slippage :: real
  op_bin_step :: int

datatype 'v addLiquidityArg =
  AddToExisting "'v addLiquidityOption"
| OpenNew "'v openPositionOption"

record 'v removeOption =
  ro_bins :: 'v
  ro_active_id :: int
  ro_is_only_a :: bool
  ro_coin_amount :: string

record 'v removeLiquidityOption =
  rl_pool_id :: "string option"
  rl_position_id :: string
  rl_active_id :: int
  rl_bin_step :: int
  rl_bin_infos :: 'v
  rl_slippage :: real
  rl_coin_type_a :: string
  rl_coin_type_b :: string

record collectOption =
  cf_pool_id :: string
  cf_position_id :: string
  cf_reward_coins :: "string list"
  cf_coin_type_a :: string
  cf_coin_type_b :: string

subsection \<open>The collaborators\<close>

text \<open>
  Each operation of the SDK and of the client takes the world state \<open>'w\<close> and returns
  either an error message (\<open>Inl\<close>: the call threw, or its promise was rejected) or a value,
  with the next world state. \<^verbatim>\<open>parseFloat\<close>, the price formatting
  \<^verbatim>\<open>(parseFloat(price) * 1000000).toFixed(6)\<close> and \<^verbatim>\<open>new BN(x).toString()\<close> are pure.
\<close>

record ('w, 'v) env =
  getPool :: "string option \<Rightarrow> 'w \<Rightarrow> (string + pool_info) \<times> 'w"
  getPriceFromBinId :: "int \<Rightarrow> int \<Rightarrow> nat \<Rightarrow> nat \<Rightarrow> 'w \<Rightarrow> (string + string) \<times> 'w"
  getBinIdFromPrice :: "string \<Rightarrow> int \<Rightarrow> bool \<Rightarrow> nat \<Rightarrow> nat \<Rightarrow> 'w \<Rightarrow> (string + int) \<times> 'w"
  getActiveBinIfInRange ::
    "string \<Rightarrow> int \<Rightarrow> int \<Rightarrow> int \<Rightarrow> int \<Rightarrow> 'w \<Rightarrow> (string + bin_amounts option) \<times> 'w"
  calculateAddLiquidityInfo :: "calculateOption \<Rightarrow> 'w \<Rightarrow> (string + 'v) \<times> 'w"
  addLiquidityPayload :: "'v addLiquidityArg \<Rightarrow> 'w \<Rightarrow> (string + 'v) \<times> 'w"
  signAndExecuteTransaction :: "'v \<Rightarrow> 'w \<Rightarrow> (string + tx_result) \<times> 'w"
  getPosition :: "string \<Rightarrow> 'w \<Rightarrow> (string + 'v position_info) \<times> 'w"
  getBinInfo :: "string \<Rightarrow> int \<Rightarrow> int \<Rightarrow> 'w \<Rightarrow> (string + 'v) \<times> 'w"
  parseLiquidityShares :: "'v \<Rightarrow> int \<Rightarrow> int \<Rightarrow> 'v \<Rightarrow> 'w \<Rightarrow> (string + 'v) \<times> 'w"
  calculateRemoveLiquidityInfo :: "'v removeOption \<Rightarrow> 'w \<Rightarrow> (string + 'v) \<times> 'w"
  removeLiquidityPayload :: "'v removeLiquidityOption \<Rightarrow> 'w \<Rightarrow> (string + 'v) \<times> 'w"
  collectRewardAndFeePayload :: "collectOption \<Rightarrow> 'w \<Rightarrow> (string + 'v) \<times> 'w"
  getBalance :: "string \<Rightarrow> string \<Rightarrow> 'w \<Rightarrow> (string + string) \<times> 'w"
  getOwnedObjects :: "string \<Rightarrow> string \<Rightarrow> 'w \<Rightarrow> (string + string option list) \<times> 'w"
  dateNow :: "'w \<Rightarrow> nat \<times> 'w"
  parseFloat :: "string \<Rightarrow> jsnum"
  formatPrice :: "string \<Rightarrow> string"
  bnToString :: "string \<Rightarrow> string + string"

subsection \<open>Observation log\<close>

text \<open>
  The log has no counterpart in the source. It records, in order, every call the strategy
  makes to a collaborator, with its arguments, and every entry into one of the strategy's
  own action methods; the entry into \<^verbatim>\<open>addLiquidityAtBin\<close> also records the value of
  \<^verbatim>\<open>this.state.currentToken\<close> at that moment. The claims about what is called, with which
  arguments and in which order are statements about this log.
\<close>

datatype 'v event =
  Call_getPool "string option"
| Call_getPriceFromBinId int int nat nat
| Call_getBinIdFromPrice string int bool nat nat
| Call_getActiveBinIfInRange string int int int int
| Call_calculateAddLiquidityInfo calculateOption
| Call_addLiquidityPayload "'v addLiquidityArg"
| Call_signAndExecuteTransaction 'v
| Call_getPosition string
| Call_getBinInfo string int int
| Call_parseLiquidityShares 'v int int 'v
| Call_calculateRemoveLiquidityInfo "'v removeOption"
| Call_removeLiquidityPayload "'v removeLiquidityOption"
| Call_collectRewardAndFeePayload collectOption
| Call_getBalance string string
| Call_getOwnedObjects string string
| Enter_executeBuyUSDC
| Enter_executeBuyUSDT
| Enter_collectFeesAndRewards string
| Enter_removeLiquidity string
| Enter_addLiquidityAtBin int token token

subsection \<open>Machine state, exceptions and the program combinators\<close>

text \<open>
  The fields \<open>state\<close> and \<open>poolAddress\<close> are the fields of the class; \<open>world\<close> is the
  state of the collaborators and \<open>trace\<close> the observation log.
\<close>

record ('w, 'v) machine =
  state :: PositionState
  poolAddress :: "string option"
  world :: 'w
  trace :: "'v event list"

text \<open>
  The two errors the strategy raises itself, \<^verbatim>\<open>new Error('Pool address not initialized')\<close>
  and \<^verbatim>\<open>new Error(`Insufficient ${tokenType} balance, cannot add liquidity`)\<close>, and
  the errors of the collaborators.
\<close>

datatype exn =
  PoolAddressNotInitialized
| InsufficientBalance token
| CollaboratorError string

type_synonym ('s, 'a) prog = "'s \<Rightarrow> (exn + 'a) \<times> 's"

definition ret :: "'a \<Rightarrow> ('s, 'a) prog" where
  "ret x = (\<lambda>s. (Inr x, s))"

definition throw :: "exn \<Rightarrow> ('s, 'a) prog" where
  "throw e = (\<lambda>s. (Inl e, s))"

definition seq :: "('s, 'a) prog \<Rightarrow> ('a \<Rightarrow> ('s, 'b) prog) \<Rightarrow> ('s, 'b) prog" where
  "seq p f = (\<lambda>s. case p s of (Inl e, s') \<Rightarrow> (Inl e, s') | (Inr x, s') \<Rightarrow> f x s')"

definition try_catch :: "('s, 'a) prog \<Rightarrow> (exn \<Rightarrow> ('s, 'a) prog) \<Rightarrow> ('s, 'a) prog" where
  "try_catch p h = (\<lambda>s. case p s of (Inl e, s') \<Rightarrow> h e s' | (Inr x, s') \<Rightarrow> (Inr x, s'))"

definition gets :: "('s \<Rightarrow> 'a) \<Rightarrow> ('s, 'a) prog" where
  "gets f = (\<lambda>s. (Inr (f s), s))"

definition modify :: "('s \<Rightarrow> 's) \<Rightarrow> ('s, unit) prog" where
  "modify f = (\<lambda>s. (Inr (), f s))"

definition record_event :: "'v event \<Rightarrow> (('w, 'v) machine, unit) prog" where
  "record_event ev = modify (\<lambda>m. m\<lparr>trace := trace m @ [ev]\<rparr>)"

text \<open>A call to a collaborator: logged, run on the world, its failure turned into an exception.\<close>

definition call ::
  "'v event \<Rightarrow> ('w \<Rightarrow> (string + 'a) \<times> 'w) \<Rightarrow> (('w, 'v) machine, 'a) prog" where
  "call ev f = (\<lambda>m. case f (world m) of
       (Inl msg, w') \<Rightarrow> (Inl (CollaboratorError msg), m\<lparr>world := w', trace := trace m @ [ev]\<rparr>)
     | (Inr x, w') \<Rightarrow> (Inr x, m\<lparr>world := w', trace := trace m @ [ev]\<rparr>))"

text \<open>
  \<^verbatim>\<open>await Promise.all([p, q])\<close>: both calls are issued, in this order, whatever the first
  one does; the whole is rejected as soon as one of them is.
\<close>

definition promise_all :: "('s, 'a) prog \<Rightarrow> ('s, 'b) prog \<Rightarrow> ('s, 'a \<times> 'b) prog" where
  "promise_all p q = (\<lambda>s. case p s of (r1, s1) \<Rightarrow> (case q s1 of (r2, s2) \<Rightarrow>
       (case r1 of Inl e \<Rightarrow> Inl e
        | Inr x \<Rightarrow> (case r2 of Inl e \<Rightarrow> Inl e | Inr y \<Rightarrow> Inr (x, y)), s2)))"

text \<open>A pure library call that may throw.\<close>

definition pure_call :: "string + 'a \<Rightarrow> ('s, 'a) prog" where
  "pure_call r = (case r of Inl msg \<Rightarrow> throw (CollaboratorError msg) | Inr x \<Rightarrow> ret x)"

text \<open>\<^verbatim>\<open>if (id) { await body(id) }\<close> on an optional string.\<close>

definition when_truthy :: "string option \<Rightarrow> (string \<Rightarrow> ('s, unit) prog) \<Rightarrow> ('s, unit) prog" where
  "when_truthy v body = (case v of None \<Rightarrow> ret () | Some s \<Rightarrow> if s \<noteq> [] then body s else ret ())"

definition set_state :: "(PositionState \<Rightarrow> PositionState) \<Rightarrow> (('w, 'v) machine, unit) prog" where
  "set_state f = modify (\<lambda>m. m\<lparr>state := f (state m)\<rparr>)"

subsection \<open>The strategy's methods\<close>

text \<open>\<^verbatim>\<open>x || '0'\<close> on an optional string.\<close>

definition or_zero :: "string option \<Rightarrow> string" where
  "or_zero v = (if truthy v then the v else ''0'')"

definition USDCType :: string where
  "USDCType = ''0xdba34672e30cb065b1f93e3ab55318768fd6fef66c15942c9f7cb846e2f900e7::usdc::USDC''"

definition USDTType :: string where
  "USDTType = ''0x375f70cf2ae4c00bf37117d0c85a2c71545e6ee05c4a5c7d282cd66a4504b068::usdt::USDT''"

definition positionType :: string where
  "positionType =
     ''0x5664f9d3fd82c84023870cfbda8ea84e14c8dd56ce557ad2116e0668581a682b::position::Position''"

text \<open>\<^verbatim>\<open>getCurrentPrice\<close> (lines 197-225).\<close>

definition getCurrentPrice :: "('w, 'v) env \<Rightarrow> (('w, 'v) machine, string) prog" where
  "getCurrentPrice env =
     try_catch
       (seq (gets poolAddress) (\<lambda>pa.
          if \<not> truthy pa then throw PoolAddressNotInitialized
          else
            seq (call (Call_getPool pa) (getPool env pa)) (\<lambda>pool.
            seq (call (Call_getPriceFromBinId (active_id pool) (bin_step pool) 6 6)
                   (getPriceFromBinId env (active_id pool) (bin_step pool) 6 6)) (\<lambda>price.
            ret (formatPrice env price)))))
       (\<lambda>error. ret ''1.0000'')"

text \<open>\<^verbatim>\<open>priceToBinId\<close> (lines 517-528).\<close>

definition priceToBinId ::
  "('w, 'v) env \<Rightarrow> StrategyConfig \<Rightarrow> string \<Rightarrow> (('w, 'v) machine, int) prog" where
  "priceToBinId env cfg price =
     call (Call_getBinIdFromPrice price (binStep cfg) False 6 6)
       (getBinIdFromPrice env price (binStep cfg) False 6 6)"

text \<open>\<^verbatim>\<open>getTokenBalances\<close> (lines 533-559).\<close>

definition getTokenBalances ::
  "('w, 'v) env \<Rightarrow> StrategyConfig \<Rightarrow> (('w, 'v) machine, balances) prog" where
  "getTokenBalances env cfg =
     try_catch
       (seq (promise_all
               (call (Call_getBalance (senderAddress cfg) USDCType)
                  (getBalance env (senderAddress cfg) USDCType))
               (call (Call_getBalance (senderAddress cfg) USDTType)
                  (getBalance env (senderAddress cfg) USDTType))) (\<lambda>(usdcBalance, usdtBalance).
        seq (pure_call (bnToString env usdcBalance)) (\<lambda>u.
        seq (pure_call (bnToString env usdtBalance)) (\<lambda>t.
        seq (set_state (\<lambda>st. st\<lparr>currentBalance := Some \<lparr>usdc = u, usdt = t\<rparr>\<rparr>)) (\<lambda>_.
        ret \<lparr>usdc = u, usdt = t\<rparr>)))))
       (\<lambda>error. ret \<lparr>usdc = ''0'', usdt = ''0''\<rparr>)"

text \<open>\<^verbatim>\<open>getExistingPositions\<close> (lines 639-656); the client returns, for each owned object,
  its \<^verbatim>\<open>data?.objectId\<close>.\<close>

definition getExistingPositions ::
  "('w, 'v) env \<Rightarrow> StrategyConfig \<Rightarrow> (('w, 'v) machine, string list) prog" where
  "getExistingPositions env cfg =
     try_catch
       (seq (call (Call_getOwnedObjects (senderAddress cfg) positionType)
               (getOwnedObjects env (senderAddress cfg) positionType)) (\<lambda>ownedObjects.
        ret (map the (filter truthy ownedObjects))))
       (\<lambda>error. ret [])"

text \<open>\<^verbatim>\<open>detectInitialToken\<close> (lines 564-602).\<close>

definition detectInitialToken ::
  "('w, 'v) env \<Rightarrow> StrategyConfig \<Rightarrow> (('w, 'v) machine, unit) prog" where
  "detectInitialToken env cfg =
     try_catch
       (seq (getTokenBalances env cfg) (\<lambda>balances.
          let usdcBalance = parseFloat env (usdc balances);
              usdtBalance = parseFloat env (usdt balances)
          in if js_gt usdcBalance usdtBalance then set_state (\<lambda>st. st\<lparr>currentToken := USDC\<rparr>)
             else if js_gt usdtBalance usdcBalance then set_state (\<lambda>st. st\<lparr>currentToken := USDT\<rparr>)
             else set_state (\<lambda>st. st\<lparr>currentToken := USDT\<rparr>)))
       (\<lambda>error.
          seq (getExistingPositions env cfg) (\<lambda>existingPositions.
            if length existingPositions > 0 then ret ()
            else set_state (\<lambda>st. st\<lparr>currentToken := USDT\<rparr>)))"

text \<open>\<^verbatim>\<open>collectFeesAndRewards\<close> (lines 480-512).\<close>

definition collectFeesAndRewards ::
  "('w, 'v) env \<Rightarrow> StrategyConfig \<Rightarrow> string \<Rightarrow> (('w, 'v) machine, unit) prog" where
  "collectFeesAndRewards env cfg positionId =
     seq (record_event (Enter_collectFeesAndRewards positionId)) (\<lambda>_.
     try_catch
       (seq (gets poolAddress) (\<lambda>pa.
          if \<not> truthy pa then ret ()
          else
            seq (call (Call_getPool pa) (getPool env pa)) (\<lambda>pool.
            let opt = \<lparr>cf_pool_id = the pa, cf_position_id = positionId,
                       cf_reward_coins = reward_coins pool,
                       cf_coin_type_a = tokenA cfg, cf_coin_type_b = tokenB cfg\<rparr>
            in
            seq (call (Call_collectRewardAndFeePayload opt)
                   (collectRewardAndFeePayload env opt)) (\<lambda>tx.
            seq (call (Call_signAndExecuteTransaction tx)
                   (signAndExecuteTransaction env tx)) (\<lambda>result.
            ret ())))))
       (\<lambda>error. ret ()))"

text \<open>\<^verbatim>\<open>removeLiquidity\<close> (lines 402-474); \<^verbatim>\<open>parseLiquidityShares\<close> returns an object
  of which only the field \<^verbatim>\<open>bins\<close> is used, so the model's call returns that field.\<close>

definition removeLiquidity ::
  "('w, 'v) env \<Rightarrow> StrategyConfig \<Rightarrow> string \<Rightarrow> (('w, 'v) machine, unit) prog" where
  "removeLiquidity env cfg positionId =
     seq (record_event (Enter_removeLiquidity positionId)) (\<lambda>_.
     try_catch
       (seq (call (Call_getPosition positionId) (getPosition env positionId)) (\<lambda>position.
        seq (gets poolAddress) (\<lambda>pa.
        seq (call (Call_getPool pa) (getPool env pa)) (\<lambda>pool.
        seq (call (Call_getBinInfo (bin_manager_handle pool) (active_id pool) (bin_step pool))
               (getBinInfo env (bin_manager_handle pool) (active_id pool) (bin_step pool)))
          (\<lambda>activeBin.
        seq (call (Call_parseLiquidityShares (liquidity_shares position) (bin_step pool)
                     (lower_bin_id position) activeBin)
               (parseLiquidityShares env (liquidity_shares position) (bin_step pool)
                     (lower_bin_id position) activeBin)) (\<lambda>bins.
        seq (gets (\<lambda>m. currentToken (state m))) (\<lambda>held.
        let isOnlyA = (held = USDT);
            removeOption = \<lparr>ro_bins = bins, ro_active_id = active_id pool,
                            ro_is_only_a = isOnlyA, ro_coin_amount = positionSize cfg\<rparr>
        in
        seq (call (Call_calculateRemoveLiquidityInfo removeOption)
               (calculateRemoveLiquidityInfo env removeOption)) (\<lambda>removalInfo.
        let removeLiquidityOption =
              \<lparr>rl_pool_id = pa, rl_position_id = positionId, rl_active_id = active_id pool,
               rl_bin_step = binStep cfg, rl_bin_infos = removalInfo,
               rl_slippage = slippage cfg,
               rl_coin_type_a = tokenA cfg, rl_coin_type_b = tokenB cfg\<rparr>
        in
        seq (call (Call_removeLiquidityPayload removeLiquidityOption)
               (removeLiquidityPayload env removeLiquidityOption)) (\<lambda>tx.
        seq (call (Call_signAndExecuteTransaction tx)
               (signAndExecuteTransaction env tx)) (\<lambda>result.
        seq (set_state (\<lambda>st. st\<lparr>currentPositionId := None\<rparr>)) (\<lambda>_.
        set_state (\<lambda>st. st\<lparr>currentBinId := None\<rparr>))))))))))))
       (\<lambda>error. throw error))"

text \<open>
  \<^verbatim>\<open>addLiquidityAtBin\<close> (lines 293-396), in two parts. The first definition is the
  method from \<^verbatim>\<open>const pool = await this.sdk.Pool.getPool(...)\<close> to the end of its
  \<^verbatim>\<open>try\<close> block (lines 303-391), with the deposit amount as a parameter; the second is
  the method itself, which reads the balances, checks the amount and goes on with the first.
\<close>

definition addLiquidityAtBin_submit ::
  "('w, 'v) env \<Rightarrow> StrategyConfig \<Rightarrow> int \<Rightarrow> token \<Rightarrow> string \<Rightarrow> (('w, 'v) machine, unit) prog" where
  "addLiquidityAtBin_submit env cfg binId tokenType amount =
        seq (gets poolAddress) (\<lambda>pa.
        seq (call (Call_getPool pa) (getPool env pa)) (\<lambda>pool.
        seq (call (Call_getActiveBinIfInRange (bin_manager_handle pool) binId binId
                     (active_id pool) (binStep cfg))
               (getActiveBinIfInRange env (bin_manager_handle pool) binId binId
                     (active_id pool) (binStep cfg))) (\<lambda>amountsInActiveBin.
        let fixAmountA = (tokenType = USDC);
            calculateOption =
              \<lparr>co_coin_amount = amount, co_fix_amount_a = fixAmountA,
               co_active_id = active_id pool, co_bin_step = binStep cfg,
               co_lower_bin_id = binId, co_upper_bin_id = binId,
               co_amount_a_in_active_bin = or_zero (map_option amount_a amountsInActiveBin),
               co_amount_b_in_active_bin = or_zero (map_option amount_b amountsInActiveBin)\<rparr>
        in
        seq (call (Call_calculateAddLiquidityInfo calculateOption)
               (calculateAddLiquidityInfo env calculateOption)) (\<lambda>binInfos.
        seq (gets (\<lambda>m. currentPositionId (state m))) (\<lambda>pid.
        if truthy pid then
          (let addLiquidityOption =
                 AddToExisting
                   \<lparr>al_pool_id = pa, al_bin_infos = binInfos,
                    al_coin_type_a = tokenA cfg, al_coin_type_b = tokenB cfg,
                    al_active_id = active_id pool, al_position_id = pid,
                    al_max_price_slippage = slippage cfg, al_bin_step = binStep cfg\<rparr>
           in
           seq (call (Call_addLiquidityPayload addLiquidityOption)
                  (addLiquidityPayload env addLiquidityOption)) (\<lambda>tx.
           seq (call (Call_signAndExecuteTransaction tx)
                  (signAndExecuteTransaction env tx)) (\<lambda>result.
           ret ())))
        else
          (let openPositionOption =
                 OpenNew
                   \<lparr>op_pool_id = pa, op_bin_infos = binInfos,
                    op_coin_type_a = tokenA cfg, op_coin_type_b = tokenB cfg,
                    op_lower_bin_id = binId, op_upper_bin_id = binId,
                    op_active_id = active_id pool,
                    op_max_price_slippage = slippage cfg, op_bin_step = binStep cfg\<rparr>
           in
           seq (call (Call_addLiquidityPayload openPositionOption)
                  (addLiquidityPayload env openPositionOption)) (\<lambda>tx.
           seq (call (Call_signAndExecuteTransaction tx)
                  (signAndExecuteTransaction env tx)) (\<lambda>result.
           seq (set_state (\<lambda>st. st\<lparr>currentPositionId := extractPositionId result\<rparr>)) (\<lambda>_.
           set_state (\<lambda>st. st\<lparr>currentBinId := Some binId\<rparr>))))))))))"

definition addLiquidityAtBin ::
  "('w, 'v) env \<Rightarrow> StrategyConfig \<Rightarrow> int \<Rightarrow> token \<Rightarrow> (('w, 'v) machine, unit) prog" where
  "addLiquidityAtBin env cfg binId tokenType =
     seq (gets (\<lambda>m. currentToken (state m))) (\<lambda>held.
     seq (record_event (Enter_addLiquidityAtBin binId tokenType held)) (\<lambda>_.
     try_catch
       (seq (getTokenBalances env cfg) (\<lambda>balances.
        let amount = (if tokenType = USDC then usdc balances else usdt balances) in
        if js_le (parseFloat env amount) (Fin 0) then throw (InsufficientBalance tokenType)
        else addLiquidityAtBin_submit env cfg binId tokenType amount))
       (\<lambda>error. throw error)))"

text \<open>\<^verbatim>\<open>executeBuyUSDC\<close> (lines 230-256) and \<^verbatim>\<open>executeBuyUSDT\<close> (lines 261-287).
  \<^verbatim>\<open>Date.now()\<close> reads the clock of the world.\<close>

definition date_now :: "('w, 'v) env \<Rightarrow> (('w, 'v) machine, nat) prog" where
  "date_now env = (\<lambda>m. case dateNow env (world m) of (t, w') \<Rightarrow> (Inr t, m\<lparr>world := w'\<rparr>))"

definition executeBuyUSDC ::
  "('w, 'v) env \<Rightarrow> StrategyConfig \<Rightarrow> (('w, 'v) machine, unit) prog" where
  "executeBuyUSDC env cfg =
     seq (record_event Enter_executeBuyUSDC) (\<lambda>_.
     try_catch
       (seq (gets (\<lambda>m. currentPositionId (state m))) (\<lambda>pid1.
        seq (when_truthy pid1 (collectFeesAndRewards env cfg)) (\<lambda>_.
        seq (gets (\<lambda>m. currentPositionId (state m))) (\<lambda>pid2.
        seq (when_truthy pid2 (removeLiquidity env cfg)) (\<lambda>_.
        seq (priceToBinId env cfg (lowerPrice cfg)) (\<lambda>lowerBinId.
        seq (addLiquidityAtBin env cfg lowerBinId USDT) (\<lambda>_.
        seq (set_state (\<lambda>st. st\<lparr>currentToken := USDC\<rparr>)) (\<lambda>_.
        seq (date_now env) (\<lambda>t.
        set_state (\<lambda>st. st\<lparr>lastActionTime := t\<rparr>))))))))))
       (\<lambda>error. throw error))"

definition executeBuyUSDT ::
  "('w, 'v) env \<Rightarrow> StrategyConfig \<Rightarrow> (('w, 'v) machine, unit) prog" where
  "executeBuyUSDT env cfg =
     seq (record_event Enter_executeBuyUSDT) (\<lambda>_.
     try_catch
       (seq (gets (\<lambda>m. currentPositionId (state m))) (\<lambda>pid1.
        seq (when_truthy pid1 (collectFeesAndRewards env cfg)) (\<lambda>_.
        seq (gets (\<lambda>m. currentPositionId (state m))) (\<lambda>pid2.
        seq (when_truthy pid2 (removeLiquidity env cfg)) (\<lambda>_.
        seq (priceToBinId env cfg (upperPrice cfg)) (\<lambda>upperBinId.
        seq (addLiquidityAtBin env cfg upperBinId USDC) (\<lambda>_.
        seq (set_state (\<lambda>st. st\<lparr>currentToken := USDT\<rparr>)) (\<lambda>_.
        seq (date_now env) (\<lambda>t.
        set_state (\<lambda>st. st\<lparr>lastActionTime := t\<rparr>))))))))))
       (\<lambda>error. throw error))"

text \<open>\<^verbatim>\<open>checkAndExecuteStrategy\<close> (lines 173-192): one poll iteration.\<close>

definition checkAndExecuteStrategy ::
  "('w, 'v) env \<Rightarrow> StrategyConfig \<Rightarrow> (('w, 'v) machine, unit) prog" where
  "checkAndExecuteStrategy env cfg =
     seq (getCurrentPrice env) (\<lambda>currentPrice.
     seq (gets (\<lambda>m. currentToken (state m))) (\<lambda>held.
       if held = USDT then
         (if js_le (parseFloat env currentPrice) (parseFloat env (lowerPrice cfg))
          then executeBuyUSDC env cfg else ret ())
       else
         (if js_ge (parseFloat env currentPrice) (parseFloat env (upperPrice cfg))
          then executeBuyUSDT env cfg else ret ())))"

text \<open>The events a program adds to the log when run from \<open>m\<close>.\<close>

definition new_events :: "(('w, 'v) machine, 'a) prog \<Rightarrow> ('w, 'v) machine \<Rightarrow> 'v event list" where
  "new_events p m = drop (length (trace m)) (trace (snd (p m)))"

subsection \<open>config.ts and the constructor\<close>

definition defaultConfig :: StrategyConfig where
  "defaultConfig =
     \<lparr>upperPrice = ''1.0005'', lowerPrice = ''0.9995'',
      tokenA = USDCType, tokenB = USDTType,
      positionSize = ''1000000'', binStep = 1,
      senderAddress = ''0xYourWalletAddress'',
      poolId = Some ''0xca0037224bc74b92d8a6ef1c6118a33232e65df22cb06809025f275f265b3d55'',
      checkInterval = 10000, slippage = 1 / 1000\<rparr>"

definition mainnetConfig :: StrategyConfig where
  "mainnetConfig = defaultConfig\<lparr>tokenA := USDCType, tokenB := USDTType\<rparr>"

definition createCustomConfig :: "string \<Rightarrow> string \<Rightarrow> string \<Rightarrow> string \<Rightarrow> StrategyConfig" where
  "createCustomConfig upper lower posSize sender =
     defaultConfig\<lparr>upperPrice := upper, lowerPrice := lower,
                    positionSize := posSize, senderAddress := sender\<rparr>"

text \<open>The state set up by the constructor (lines 70-74) at clock reading \<open>t\<close>.\<close>

definition initialState :: "nat \<Rightarrow> PositionState" where
  "initialState t =
     \<lparr>currentToken = USDT, currentPositionId = None, currentBinId = None,
      lastActionTime = t, totalProfit = ''0'', currentBalance = None\<rparr>"

section \<open>Observations used to state the properties\<close>

text \<open>The withdrawal plans, the deposit splits and the placements found in a log.\<close>

definition removal_requests :: "'v event list \<Rightarrow> 'v removeOption list" where
  "removal_requests evs =
     concat (map (\<lambda>e. case e of Call_calculateRemoveLiquidityInfo opt \<Rightarrow> [opt] | _ \<Rightarrow> []) evs)"

definition deposit_requests :: "'v event list \<Rightarrow> calculateOption list" where
  "deposit_requests evs =
     concat (map (\<lambda>e. case e of Call_calculateAddLiquidityInfo opt \<Rightarrow> [opt] | _ \<Rightarrow> []) evs)"

definition placements :: "'v event list \<Rightarrow> (int \<times> token \<times> token) list" where
  "placements evs =
     concat (map (\<lambda>e. case e of Enter_addLiquidityAtBin b t held \<Rightarrow> [(b, t, held)] | _ \<Rightarrow> []) evs)"

text \<open>Calls to a collaborator, as opposed to entries into the strategy's own methods.\<close>

fun is_call :: "'v event \<Rightarrow> bool" where
  "is_call Enter_executeBuyUSDC = False"
| "is_call Enter_executeBuyUSDT = False"
| "is_call (Enter_collectFeesAndRewards _) = False"
| "is_call (Enter_removeLiquidity _) = False"
| "is_call (Enter_addLiquidityAtBin _ _ _) = False"
| "is_call _ = True"

text \<open>The balance of the deposited asset, as \<^verbatim>\<open>getTokenBalances\<close> reports it from \<open>m\<close>.\<close>

definition available_balance ::
  "('w, 'v) env \<Rightarrow> StrategyConfig \<Rightarrow> token \<Rightarrow> ('w, 'v) machine \<Rightarrow> string" where
  "available_balance env cfg tokenType m =
     (case fst (getTokenBalances env cfg m) of
        Inr b \<Rightarrow> (if tokenType = USDC then usdc b else usdt b)
      | Inl e \<Rightarrow> [])"

text \<open>The price string that a poll iteration started in \<open>m\<close> reads.\<close>

definition price_reading :: "('w, 'v) env \<Rightarrow> ('w, 'v) machine \<Rightarrow> string" where
  "price_reading env m = (case fst (getCurrentPrice env m) of Inr p \<Rightarrow> p | Inl e \<Rightarrow> [])"

text \<open>One of the two balance queries issued from \<open>m\<close> fails.\<close>

definition balance_read_fails :: "('w, 'v) env \<Rightarrow> StrategyConfig \<Rightarrow> ('w, 'v) machine \<Rightarrow> bool" where
  "balance_read_fails env cfg m =
     (case getBalance env (senderAddress cfg) USDCType (world m) of
        (r1, w1) \<Rightarrow> isl r1 \<or> isl (fst (getBalance env (senderAddress cfg) USDTType w1)))"

text \<open>The price retrieval started in \<open>m\<close> fails: no pool address, or the pool read or the
  conversion of the active bin to a price throws.\<close>

definition price_read_fails :: "('w, 'v) env \<Rightarrow> ('w, 'v) machine \<Rightarrow> bool" where
  "price_read_fails env m =
     (\<not> truthy (poolAddress m) \<or>
      (case getPool env (poolAddress m) (world m) of
         (Inl msg, w) \<Rightarrow> True
       | (Inr pool, w) \<Rightarrow> isl (fst (getPriceFromBinId env (active_id pool) (bin_step pool) 6 6 w))))"

section \<open>A judgement for composing facts about programs\<close>

text \<open>
  \<open>behaves P E f p\<close>: from every machine state, \<open>p\<close> only appends events that satisfy \<open>P\<close>
  to the log, fails only with exceptions that satisfy \<open>E\<close>, leaves the observation \<open>f\<close> of
  the strategy state as it was, and does not touch the pool address.
\<close>

definition behaves ::
  "('v event \<Rightarrow> bool) \<Rightarrow> (exn \<Rightarrow> bool) \<Rightarrow> (PositionState \<Rightarrow> 'b) \<Rightarrow>
   (('w, 'v) machine, 'a) prog \<Rightarrow> bool" where
  "behaves P E f p =
     (\<forall>m. (\<exists>evs. trace (snd (p m)) = trace m @ evs \<and> list_all P evs)
        \<and> (\<forall>e. fst (p m) = Inl e \<longrightarrow> E e)
        \<and> f (state (snd (p m))) = f (state m)
        \<and> poolAddress (snd (p m)) = poolAddress m)"

section \<open>Concrete collaborators for running the model\<close>

text \<open>
  A chain on which every call succeeds: the pool trades at bin \<open>-6\<close> (price 0.9994), the
  wallet holds no USDC and 100 USDT, and a submitted transaction reports neither a created
  object nor an event. \<open>demoParseFloat\<close> is \<^verbatim>\<open>parseFloat\<close> on the strings that occur.
\<close>

definition demoParseFloat :: "string \<Rightarrow> jsnum" where
  "demoParseFloat s =
     (if s = ''0'' then Fin 0
      else if s = ''100000000'' then Fin 100000000
      else if s = ''0.9995'' then Fin (9995 / 10000)
      else if s = ''1.0005'' then Fin (10005 / 10000)
      else if s = ''1.0000'' then Fin 1
      else if s = ''1.000000'' then Fin 1
      else if s = ''0.999400'' then Fin (9994 / 10000)
      else if s = ''1.000600'' then Fin (10006 / 10000)
      else if s = ''1.0001'' then Fin (10001 / 10000)
      else if s = ''1.0010'' then Fin (10010 / 10000)
      else NaN)"

definition demoPool :: pool_info where
  "demoPool =
     \<lparr>active_id = - 6, bin_step = 1, bin_manager_handle = ''0xbins'', reward_coins = []\<rparr>"

definition demoResult :: tx_result where
  "demoResult = \<lparr>digest = ''D1'', effects = Some \<lparr>created = Some [], events = Some []\<rparr>\<rparr>"

definition demoEnv :: "(unit, string) env" where
  "demoEnv =
     \<lparr>getPool = (\<lambda>pa w. (Inr demoPool, w)),
      getPriceFromBinId = (\<lambda>a st da db w.
        (Inr (if a = - 6 then ''0.0000009994''
              else if a = 0 then ''0.000001'' else ''0.0000010006''), w)),
      getBinIdFromPrice = (\<lambda>p st mn da db w. (Inr (if p = ''0.9995'' then - 5 else 5), w)),
      getActiveBinIfInRange = (\<lambda>h lo hi a st w. (Inr None, w)),
      calculateAddLiquidityInfo = (\<lambda>opt w. (Inr ''binInfos'', w)),
      addLiquidityPayload = (\<lambda>opt w. (Inr ''addTx'', w)),
      signAndExecuteTransaction = (\<lambda>tx w. (Inr demoResult, w)),
      getPosition = (\<lambda>pid w.
        (Inr \<lparr>lower_bin_id = 5, upper_bin_id = 5, liquidity_shares = ''shares''\<rparr>, w)),
      getBinInfo = (\<lambda>h a st w. (Inr ''activeBin'', w)),
      parseLiquidityShares = (\<lambda>sh st lo ab w. (Inr ''bins'', w)),
      calculateRemoveLiquidityInfo = (\<lambda>opt w. (Inr ''removalInfo'', w)),
      removeLiquidityPayload = (\<lambda>opt w. (Inr ''removeTx'', w)),
      collectRewardAndFeePayload = (\<lambda>opt w. (Inr ''collectTx'', w)),
      getBalance = (\<lambda>owner ct w. (Inr (if ct = USDCType then ''0'' else ''100000000''), w)),
      getOwnedObjects = (\<lambda>owner ty w. (Inr [], w)),
      dateNow = (\<lambda>w. (1000, w)),
      parseFloat = demoParseFloat,
      formatPrice = (\<lambda>p. if p = ''0.0000009994'' then ''0.999400''
                         else if p = ''0.000001'' then ''1.000000'' else ''1.000600''),
      bnToString = Inr\<rparr>"

text \<open>The machine right after construction and pool initialisation with the default config.\<close>

definition demoMachine :: "(unit, string) machine" where
  "demoMachine =
     \<lparr>state = initialState 0, poolAddress = poolId defaultConfig, world = (), trace = []\<rparr>"

text \<open>The same machine later in its life: it holds USDC and a position is open.\<close>

definition demoMachineUSDC :: "(unit, string) machine" where
  "demoMachineUSDC =
     demoMachine\<lparr>state := (initialState 0)\<lparr>currentToken := USDC,
                                          currentPositionId := Some ''0xpos1'',
                                          currentBinId := Some (- 5)\<rparr>\<rparr>"

text \<open>Collaborators that fail: the balance queries, the pool read, the fee collection.\<close>

definition noBalanceEnv :: "(unit, string) env" where
  "noBalanceEnv =
     demoEnv\<lparr>getBalance := (\<lambda>owner ct w. (Inl ''rpc unavailable'', w)),
             getOwnedObjects := (\<lambda>owner ty w. (Inr [Some ''0xpos1''], w))\<rparr>"

definition noPoolEnv :: "(unit, string) env" where
  "noPoolEnv = demoEnv\<lparr>getPool := (\<lambda>pa w. (Inl ''rpc unavailable'', w))\<rparr>"

definition noCollectEnv :: "(unit, string) env" where
  "noCollectEnv =
     demoEnv\<lparr>collectRewardAndFeePayload := (\<lambda>opt w. (Inl ''nothing to collect'', w))\<rparr>"

text \<open>The same chain with the pool trading at bin 0 (price 1.0000, inside the default band)
  and at bin 6 (price 1.0006, above it).\<close>

definition inBandEnv :: "(unit, string) env" where
  "inBandEnv = demoEnv\<lparr>getPool := (\<lambda>pa w. (Inr (demoPool\<lparr>active_id := 0\<rparr>), w))\<rparr>"

definition highPriceEnv :: "(unit, string) env" where
  "highPriceEnv = demoEnv\<lparr>getPool := (\<lambda>pa w. (Inr (demoPool\<lparr>active_id := 6\<rparr>), w))\<rparr>"

section \<open>The common shape of the two rebalancing methods\<close>

text \<open>
  \<^verbatim>\<open>executeBuyUSDC\<close> and \<^verbatim>\<open>executeBuyUSDT\<close> are the same text up to the entry event, the
  boundary price, the deposited asset and the asset held afterwards. \<open>rebalance\<close> is that
  text with the four as parameters; it serves the proofs only
  (\<open>executeBuyUSDC_rebalance\<close>, \<open>executeBuyUSDT_rebalance\<close>).
\<close>

definition rebalance ::
  "('w, 'v) env \<Rightarrow> StrategyConfig \<Rightarrow> 'v event \<Rightarrow> string \<Rightarrow> token \<Rightarrow> token \<Rightarrow>
   (('w, 'v) machine, unit) prog" where
  "rebalance env cfg ev price tok newTok =
     seq (record_event ev) (\<lambda>_.
     try_catch
       (seq (gets (\<lambda>m. currentPositionId (state m))) (\<lambda>pid1.
        seq (when_truthy pid1 (collectFeesAndRewards env cfg)) (\<lambda>_.
        seq (gets (\<lambda>m. currentPositionId (state m))) (\<lambda>pid2.
        seq (when_truthy pid2 (removeLiquidity env cfg)) (\<lambda>_.
        seq (priceToBinId env cfg price) (\<lambda>binId.
        seq (addLiquidityAtBin env cfg binId tok) (\<lambda>_.
        seq (set_state (\<lambda>st. st\<lparr>currentToken := newTok\<rparr>)) (\<lambda>_.
        seq (date_now env) (\<lambda>t.
        set_state (\<lambda>st. st\<lparr>lastActionTime := t\<rparr>))))))))))
       (\<lambda>error. throw error))"

section \<open>Proofs\<close>

subsection \<open>Comparisons\<close>

lemma js_lt_irrefl: "\<not> js_lt a a"
  by (cases a) simp_all

lemma js_lt_not_le: "js_lt a b \<Longrightarrow> \<not> js_le b a"
  by (cases a; cases b) simp_all

subsection \<open>Rules of the judgement\<close>

lemma behaves_ret: "behaves P E f (ret x)"
  by (simp add: behaves_def ret_def)

lemma behaves_throw: "E e \<Longrightarrow> behaves P E f (throw e)"
  by (simp add: behaves_def throw_def)

lemma behaves_gets: "behaves P E f (gets g)"
  by (simp add: behaves_def gets_def)

lemma behaves_record_event: "P ev \<Longrightarrow> behaves P E f (record_event ev)"
  by (simp add: behaves_def record_event_def modify_def)

lemma behaves_call:
  "P ev \<Longrightarrow> (\<And>msg. E (CollaboratorError msg)) \<Longrightarrow> behaves P E f (call ev g)"
  by (auto simp: behaves_def call_def split: prod.splits sum.splits)

lemma behaves_set_state: "(\<And>st. f (g st) = f st) \<Longrightarrow> behaves P E f (set_state g)"
  by (simp add: behaves_def set_state_def modify_def)

lemma behaves_date_now: "behaves P E f (date_now env)"
  by (auto simp: behaves_def date_now_def split: prod.splits)

lemma behaves_pure_call: "(\<And>msg. E (CollaboratorError msg)) \<Longrightarrow> behaves P E f (pure_call r)"
  by (auto simp: behaves_def pure_call_def ret_def throw_def split: sum.splits)

lemma behaves_seq:
  assumes "behaves P E f p" and "\<And>x. behaves P E f (g x)"
  shows "behaves P E f (seq p g)"
  unfolding behaves_def
proof (intro allI)
  fix m
  obtain r m1 where pm: "p m = (r, m1)" by (cases "p m")
  from assms(1) pm obtain evs1 where
    1: "trace m1 = trace m @ evs1" "list_all P evs1" "\<forall>e. r = Inl e \<longrightarrow> E e"
       "f (state m1) = f (state m)" "poolAddress m1 = poolAddress m"
    unfolding behaves_def by (metis fst_conv snd_conv)
  show "(\<exists>evs. trace (snd (seq p g m)) = trace m @ evs \<and> list_all P evs)
        \<and> (\<forall>e. fst (seq p g m) = Inl e \<longrightarrow> E e)
        \<and> f (state (snd (seq p g m))) = f (state m)
        \<and> poolAddress (snd (seq p g m)) = poolAddress m"
  proof (cases r)
    case (Inl e)
    with pm 1 show ?thesis by (simp add: seq_def)
  next
    case (Inr x)
    from assms(2)[of x] obtain evs2 where
      2: "trace (snd (g x m1)) = trace m1 @ evs2" "list_all P evs2"
         "\<forall>e. fst (g x m1) = Inl e \<longrightarrow> E e"
         "f (state (snd (g x m1))) = f (state m1)" "poolAddress (snd (g x m1)) = poolAddress m1"
      unfolding behaves_def by metis
    from pm Inr have "seq p g m = g x m1" by (simp add: seq_def)
    with 1 2 show ?thesis by simp
  qed
qed

lemma behaves_try_catch:
  assumes "behaves P E' f p" and "\<And>e. E' e \<Longrightarrow> behaves P E f (h e)"
  shows "behaves P E f (try_catch p h)"
  unfolding behaves_def
proof (intro allI)
  fix m
  obtain r m1 where pm: "p m = (r, m1)" by (cases "p m")
  from assms(1) pm obtain evs1 where
    1: "trace m1 = trace m @ evs1" "list_all P evs1" "\<forall>e. r = Inl e \<longrightarrow> E' e"
       "f (state m1) = f (state m)" "poolAddress m1 = poolAddress m"
    unfolding behaves_def by (metis fst_conv snd_conv)
  show "(\<exists>evs. trace (snd (try_catch p h m)) = trace m @ evs \<and> list_all P evs)
        \<and> (\<forall>e. fst (try_catch p h m) = Inl e \<longrightarrow> E e)
        \<and> f (state (snd (try_catch p h m))) = f (state m)
        \<and> poolAddress (snd (try_catch p h m)) = poolAddress m"
  proof (cases r)
    case (Inr x)
    with pm 1 show ?thesis by (simp add: try_catch_def)
  next
    case (Inl e)
    with 1 have "E' e" by simp
    from assms(2)[OF this] obtain evs2 where
      2: "trace (snd (h e m1)) = trace m1 @ evs2" "list_all P evs2"
         "\<forall>e'. fst (h e m1) = Inl e' \<longrightarrow> E e'"
         "f (state (snd (h e m1))) = f (state m1)" "poolAddress (snd (h e m1)) = poolAddress m1"
      unfolding behaves_def by metis
    from pm Inl have "try_catch p h m = h e m1" by (simp add: try_catch_def)
    with 1 2 show ?thesis by simp
  qed
qed

lemma behaves_rethrow:
  "behaves P E f p \<Longrightarrow> behaves P E f (try_catch p (\<lambda>error. throw error))"
  by (rule behaves_try_catch[where E' = E]) (auto intro: behaves_throw)

lemma behaves_swallow:
  "behaves P (\<lambda>_. True) f p \<Longrightarrow> (\<And>e. behaves P E f (h e)) \<Longrightarrow> behaves P E f (try_catch p h)"
  by (rule behaves_try_catch[where E' = "\<lambda>_. True"]) auto

lemma behaves_promise_all:
  assumes "behaves P E f p" and "behaves P E f q"
  shows "behaves P E f (promise_all p q)"
  unfolding behaves_def
proof (intro allI)
  fix m
  obtain r1 m1 where pm: "p m = (r1, m1)" by (cases "p m")
  obtain r2 m2 where qm: "q m1 = (r2, m2)" by (cases "q m1")
  from assms(1) pm obtain evs1 where
    1: "trace m1 = trace m @ evs1" "list_all P evs1" "\<forall>e. r1 = Inl e \<longrightarrow> E e"
       "f (state m1) = f (state m)" "poolAddress m1 = poolAddress m"
    unfolding behaves_def by (metis fst_conv snd_conv)
  from assms(2) qm obtain evs2 where
    2: "trace m2 = trace m1 @ evs2" "list_all P evs2" "\<forall>e. r2 = Inl e \<longrightarrow> E e"
       "f (state m2) = f (state m1)" "poolAddress m2 = poolAddress m1"
    unfolding behaves_def by (metis fst_conv snd_conv)
  from pm qm 1 2
  show "(\<exists>evs. trace (snd (promise_all p q m)) = trace m @ evs \<and> list_all P evs)
        \<and> (\<forall>e. fst (promise_all p q m) = Inl e \<longrightarrow> E e)
        \<and> f (state (snd (promise_all p q m))) = f (state m)
        \<and> poolAddress (snd (promise_all p q m)) = poolAddress m"
    by (auto simp: promise_all_def split: sum.splits)
qed

lemma behaves_when_truthy:
  "(\<And>s. behaves P E f (body s)) \<Longrightarrow> behaves P E f (when_truthy v body)"
  by (auto simp: when_truthy_def behaves_ret split: option.splits)

lemma behaves_if:
  "(c \<Longrightarrow> behaves P E f p) \<Longrightarrow> (\<not> c \<Longrightarrow> behaves P E f q) \<Longrightarrow> behaves P E f (if c then p else q)"
  by simp

lemma behaves_Let: "behaves P E f (g v) \<Longrightarrow> behaves P E f (Let v g)"
  by simp

lemma behaves_case_prod:
  "(\<And>a b. behaves P E f (g a b)) \<Longrightarrow> behaves P E f (case_prod g x)"
  by (cases x) simp

lemmas behaves_intros =
  behaves_ret behaves_gets behaves_record_event behaves_call behaves_set_state
  behaves_date_now behaves_pure_call behaves_seq behaves_rethrow behaves_promise_all
  behaves_when_truthy behaves_if behaves_Let behaves_case_prod

lemma behavesD:
  assumes "behaves P E f p" and "p m = (r, m')"
  shows "\<exists>evs. trace m' = trace m @ evs \<and> list_all P evs"
    and "\<And>e. r = Inl e \<Longrightarrow> E e"
    and "f (state m') = f (state m)"
    and "poolAddress m' = poolAddress m"
  using assms unfolding behaves_def by (metis fst_conv snd_conv)+

lemma try_catch_rethrow: "try_catch p (\<lambda>error. throw error) = p"
  by (auto simp: try_catch_def throw_def fun_eq_iff split: prod.splits sum.splits)

lemma seq_gets: "seq (gets g) k m = k (g m) m"
  by (simp add: seq_def gets_def)

lemma seq_record_event: "seq (record_event ev) k m = k () (m\<lparr>trace := trace m @ [ev]\<rparr>)"
  by (simp add: seq_def record_event_def modify_def)

lemma seq_Inr: "p m = (Inr x, m1) \<Longrightarrow> seq p k m = k x m1"
  by (simp add: seq_def)

lemma seq_Inl: "p m = (Inl e, m1) \<Longrightarrow> seq p k m = (Inl e, m1)"
  by (simp add: seq_def)

subsection \<open>Reading the balances\<close>

lemma behaves_getTokenBalances:
  assumes "\<And>e. is_call e \<Longrightarrow> P e" and "\<And>st b. f (st\<lparr>currentBalance := b\<rparr>) = f st"
  shows "behaves P E f (getTokenBalances env cfg)"
  unfolding getTokenBalances_def
  by (rule behaves_swallow; (intro behaves_intros)?; simp add: assms)

lemma getTokenBalances_run:
  assumes "getTokenBalances env cfg m = (r, m')"
  shows "(\<exists>b. r = Inr b \<and> (balance_read_fails env cfg m \<longrightarrow> b = \<lparr>usdc = ''0'', usdt = ''0''\<rparr>))
     \<and> trace m' = trace m @ [Call_getBalance (senderAddress cfg) USDCType,
                               Call_getBalance (senderAddress cfg) USDTType]"
  using assms
  by (auto simp: getTokenBalances_def balance_read_fails_def seq_def try_catch_def call_def
        promise_all_def pure_call_def set_state_def modify_def ret_def throw_def
      split: prod.splits sum.splits)

lemma getTokenBalances_state:
  assumes "getTokenBalances env cfg m = (r, m')"
  shows "state m' = state m \<or> (\<exists>v. state m' = (state m)\<lparr>currentBalance := v\<rparr>)"
  using assms
  by (auto simp: getTokenBalances_def seq_def try_catch_def call_def
        promise_all_def pure_call_def set_state_def modify_def ret_def throw_def
      split: prod.splits sum.splits)

lemma getTokenBalances_trace_indep:
  "fst (getTokenBalances env cfg (m\<lparr>trace := tr\<rparr>)) = fst (getTokenBalances env cfg m)"
  by (auto simp: getTokenBalances_def seq_def try_catch_def call_def
        promise_all_def pure_call_def set_state_def modify_def ret_def throw_def
      split: prod.splits sum.splits)

subsection \<open>Placing liquidity\<close>

lemma behaves_addLiquidityAtBin_submit:
  assumes "\<And>e. is_call e \<Longrightarrow>
             (\<forall>opt. e = Call_calculateAddLiquidityInfo opt \<longrightarrow> co_coin_amount opt = amount) \<Longrightarrow> P e"
    and "\<And>msg. E (CollaboratorError msg)"
    and "\<And>st v. f (st\<lparr>currentPositionId := v\<rparr>) = f st"
    and "\<And>st v. f (st\<lparr>currentBinId := v\<rparr>) = f st"
  shows "behaves P E f (addLiquidityAtBin_submit env cfg b t amount)"
  unfolding addLiquidityAtBin_submit_def
  by (intro behaves_intros; simp add: assms)

lemma seq_apply:
  "seq p k m = (case p m of (Inl e, s') \<Rightarrow> (Inl e, s') | (Inr x, s') \<Rightarrow> k x s')"
  by (simp add: seq_def)

lemma addLiquidityAtBin_run:
  "addLiquidityAtBin env cfg b t m =
     (case getTokenBalances env cfg
             (m\<lparr>trace := trace m @ [Enter_addLiquidityAtBin b t (currentToken (state m))]\<rparr>) of
        (Inl e, m1) \<Rightarrow> (Inl e, m1)
      | (Inr bal, m1) \<Rightarrow>
          (if js_le (parseFloat env (if t = USDC then usdc bal else usdt bal)) (Fin 0)
           then (Inl (InsufficientBalance t), m1)
           else addLiquidityAtBin_submit env cfg b t (if t = USDC then usdc bal else usdt bal) m1))"
proof -
  obtain r m1 where g: "getTokenBalances env cfg
      (m\<lparr>trace := trace m @ [Enter_addLiquidityAtBin b t (currentToken (state m))]\<rparr>) = (r, m1)"
    by (cases "getTokenBalances env cfg
      (m\<lparr>trace := trace m @ [Enter_addLiquidityAtBin b t (currentToken (state m))]\<rparr>)")
  show ?thesis
    unfolding addLiquidityAtBin_def try_catch_rethrow
    by (cases r)
       (simp_all add: seq_apply gets_def record_event_def modify_def g throw_def Let_def)
qed

text \<open>What a placement does, told from the balance it reads.\<close>

lemma addLiquidityAtBin_cases:
  obtains (insufficient) m1 where
      "js_le (parseFloat env (available_balance env cfg t m)) (Fin 0)"
      "addLiquidityAtBin env cfg b t m = (Inl (InsufficientBalance t), m1)"
      "trace m1 = trace m @ [Enter_addLiquidityAtBin b t (currentToken (state m)),
                             Call_getBalance (senderAddress cfg) USDCType,
                             Call_getBalance (senderAddress cfg) USDTType]"
    | (submit) m1 where
      "\<not> js_le (parseFloat env (available_balance env cfg t m)) (Fin 0)"
      "addLiquidityAtBin env cfg b t m =
         addLiquidityAtBin_submit env cfg b t (available_balance env cfg t m) m1"
      "trace m1 = trace m @ [Enter_addLiquidityAtBin b t (currentToken (state m)),
                             Call_getBalance (senderAddress cfg) USDCType,
                             Call_getBalance (senderAddress cfg) USDTType]"
      "state m1 = state m \<or> (\<exists>v. state m1 = (state m)\<lparr>currentBalance := v\<rparr>)"
      "poolAddress m1 = poolAddress m"
proof -
  define m0 where
    "m0 = m\<lparr>trace := trace m @ [Enter_addLiquidityAtBin b t (currentToken (state m))]\<rparr>"
  define amount where "amount = available_balance env cfg t m"
  obtain r m1 where g: "getTokenBalances env cfg m0 = (r, m1)"
    by (cases "getTokenBalances env cfg m0")
  from getTokenBalances_run[OF g] obtain bal where
    r: "r = Inr bal" and
    tr: "trace m1 = trace m0 @ [Call_getBalance (senderAddress cfg) USDCType,
                                Call_getBalance (senderAddress cfg) USDTType]"
    by blast
  have "fst (getTokenBalances env cfg m) = Inr bal"
    using getTokenBalances_trace_indep[where env = env and cfg = cfg and m = m and tr = "trace m0"] g r
    by (simp add: m0_def)
  then have am: "amount = (if t = USDC then usdc bal else usdt bal)"
    by (simp add: amount_def available_balance_def)
  have tr': "trace m1 = trace m @ [Enter_addLiquidityAtBin b t (currentToken (state m)),
                             Call_getBalance (senderAddress cfg) USDCType,
                             Call_getBalance (senderAddress cfg) USDTType]"
    using tr by (simp add: m0_def)
  have st: "state m1 = state m \<or> (\<exists>v. state m1 = (state m)\<lparr>currentBalance := v\<rparr>)"
    using getTokenBalances_state[OF g] by (simp add: m0_def)
  have pa: "poolAddress m1 = poolAddress m"
    using behavesD(4)[OF behaves_getTokenBalances[of "\<lambda>_. True" "\<lambda>_. ()"] g]
    by (simp add: m0_def)
  have run: "addLiquidityAtBin env cfg b t m =
      (if js_le (parseFloat env amount) (Fin 0) then (Inl (InsufficientBalance t), m1)
       else addLiquidityAtBin_submit env cfg b t amount m1)"
    using g r am by (simp add: addLiquidityAtBin_run m0_def[symmetric])
  show thesis
  proof (cases "js_le (parseFloat env amount) (Fin 0)")
    case True
    with run tr' show thesis unfolding amount_def by (intro insufficient[of m1]) simp_all
  next
    case False
    with run tr' st pa show thesis unfolding amount_def by (intro submit[of m1]) simp_all
  qed
qed

lemma deposit_requests_all:
  "list_all (\<lambda>e. \<forall>opt. e = Call_calculateAddLiquidityInfo opt \<longrightarrow> Q opt) evs \<Longrightarrow>
   \<forall>opt \<in> set (deposit_requests evs). Q opt"
  by (induction evs) (auto simp: deposit_requests_def split: event.splits)

lemma deposit_requests_append:
  "deposit_requests (xs @ ys) = deposit_requests xs @ deposit_requests ys"
  by (simp add: deposit_requests_def)

lemma available_balance_on_success:
  assumes "getBalance env (senderAddress cfg) USDCType (world m) = (Inr ub, w1)"
    and "getBalance env (senderAddress cfg) USDTType w1 = (Inr tb, w2)"
    and "bnToString env ub = Inr u" and "bnToString env tb = Inr v"
  shows "available_balance env cfg tok m = (if tok = USDC then u else v)"
  using assms
  by (simp add: available_balance_def getTokenBalances_def seq_def try_catch_def call_def
        promise_all_def pure_call_def set_state_def modify_def ret_def throw_def)

subsection \<open>The methods one by one\<close>

lemma executeBuyUSDC_rebalance:
  "executeBuyUSDC env cfg = rebalance env cfg Enter_executeBuyUSDC (lowerPrice cfg) USDT USDC"
  by (simp add: executeBuyUSDC_def rebalance_def)

lemma executeBuyUSDT_rebalance:
  "executeBuyUSDT env cfg = rebalance env cfg Enter_executeBuyUSDT (upperPrice cfg) USDC USDT"
  by (simp add: executeBuyUSDT_def rebalance_def)

lemma entered:
  assumes "seq (record_event ev) (\<lambda>_. p) m = (r, m')" and "behaves P E f p"
  shows "\<exists>evs. trace m' = trace m @ ev # evs \<and> list_all P evs"
    and "\<And>e. r = Inl e \<Longrightarrow> E e"
    and "f (state m') = f (state m)"
    and "poolAddress m' = poolAddress m"
proof -
  from assms(1) have run: "p (m\<lparr>trace := trace m @ [ev]\<rparr>) = (r, m')"
    by (simp add: seq_record_event)
  from behavesD(1)[OF assms(2) run]
  show "\<exists>evs. trace m' = trace m @ ev # evs \<and> list_all P evs" by simp
  from behavesD(2)[OF assms(2) run] show "\<And>e. r = Inl e \<Longrightarrow> E e" .
  from behavesD(3)[OF assms(2) run] show "f (state m') = f (state m)" by simp
  from behavesD(4)[OF assms(2) run] show "poolAddress m' = poolAddress m" by simp
qed

lemma behaves_priceToBinId:
  assumes "\<And>e. is_call e \<Longrightarrow> P e" and "\<And>msg. E (CollaboratorError msg)"
  shows "behaves P E f (priceToBinId env cfg price)"
  unfolding priceToBinId_def by (rule behaves_call) (simp_all add: assms)

lemma behaves_getCurrentPrice:
  assumes "\<And>e. is_call e \<Longrightarrow> P e"
  shows "behaves P E f (getCurrentPrice env)"
  unfolding getCurrentPrice_def
  by (rule behaves_swallow; (intro behaves_intros behaves_throw)?; simp add: assms)

lemma behaves_collectFeesAndRewards:
  assumes "\<And>e. is_call e \<Longrightarrow> P e" and "P (Enter_collectFeesAndRewards pid)"
  shows "behaves P E f (collectFeesAndRewards env cfg pid)"
  unfolding collectFeesAndRewards_def
  apply (rule behaves_seq)
   apply (rule behaves_record_event, rule assms(2))
  apply (rule behaves_swallow)
   apply (intro behaves_intros; simp add: assms)
  apply (rule behaves_ret)
  done

lemma behaves_removeLiquidity:
  assumes "\<And>e. is_call e \<Longrightarrow> P e" and "P (Enter_removeLiquidity pid)"
    and "\<And>msg. E (CollaboratorError msg)"
    and "\<And>st v. f (st\<lparr>currentPositionId := v\<rparr>) = f st"
    and "\<And>st v. f (st\<lparr>currentBinId := v\<rparr>) = f st"
  shows "behaves P E f (removeLiquidity env cfg pid)"
  unfolding removeLiquidity_def
  by (intro behaves_intros; simp add: assms)

lemma removeLiquidity_entered:
  assumes "removeLiquidity env cfg pid m = (r, m')"
  shows "\<exists>evs. trace m' = trace m @ Enter_removeLiquidity pid # evs \<and> list_all is_call evs"
  by (rule entered(1)[OF assms[unfolded removeLiquidity_def],
        where E = "\<lambda>_. True" and f = "\<lambda>_. ()"])
     (intro behaves_intros; simp)

lemma collectFeesAndRewards_entered:
  assumes "collectFeesAndRewards env cfg pid m = (r, m')"
  shows "\<exists>evs. trace m' = trace m @ Enter_collectFeesAndRewards pid # evs \<and> list_all is_call evs"
    and "r = Inr ()" and "state m' = state m" and "poolAddress m' = poolAddress m"
proof -
  note run = assms[unfolded collectFeesAndRewards_def]
  show "\<exists>evs. trace m' = trace m @ Enter_collectFeesAndRewards pid # evs \<and> list_all is_call evs"
    by (rule entered(1)[OF run, where E = "\<lambda>_. True" and f = "\<lambda>_. ()"])
       (rule behaves_swallow; (intro behaves_intros)?; simp)
  have False if "r = Inl e" for e
    by (rule entered(2)[OF run _ that, where P = is_call and E = "\<lambda>_. False" and f = "\<lambda>_. ()"])
       (rule behaves_swallow; (intro behaves_intros)?; simp)
  then show "r = Inr ()" by (cases r) auto
  show "state m' = state m"
    by (rule entered(3)[OF run, where P = is_call and E = "\<lambda>_. True" and f = "\<lambda>st. st"])
       (rule behaves_swallow; (intro behaves_intros)?; simp)
  show "poolAddress m' = poolAddress m"
    by (rule entered(4)[OF run, where P = is_call and E = "\<lambda>_. True" and f = "\<lambda>_. ()"])
       (rule behaves_swallow; (intro behaves_intros)?; simp)
qed

lemma addLiquidityAtBin_entered:
  assumes "addLiquidityAtBin env cfg b t m = (r, m')"
  shows "\<exists>evs. trace m' = trace m @ Enter_addLiquidityAtBin b t (currentToken (state m)) # evs
           \<and> list_all is_call evs"
proof (cases rule: addLiquidityAtBin_cases[where env = env and cfg = cfg and t = t and m = m and b = b])
  case (insufficient m1)
  with assms show ?thesis by simp
next
  case (submit m1)
  have beh: "behaves is_call (\<lambda>_. True) (\<lambda>_. ())
          (addLiquidityAtBin_submit env cfg b t (available_balance env cfg t m))"
    by (rule behaves_addLiquidityAtBin_submit) simp_all
  from assms submit(2) have "addLiquidityAtBin_submit env cfg b t (available_balance env cfg t m) m1
        = (r, m')" by simp
  from behavesD(1)[OF beh this] submit(3) show ?thesis by auto
qed

subsection \<open>A rebalance, step by step\<close>

lemma rebalance_tail:
  assumes "seq (priceToBinId env cfg price) (\<lambda>binId.
           seq (addLiquidityAtBin env cfg binId tok) (\<lambda>_.
           seq (set_state g1) (\<lambda>_.
           seq (date_now env) (\<lambda>t. set_state (g2 t))))) m = (r, m')"
  shows "\<exists>evs. trace m' = trace m @ evs \<and>
           list_all (\<lambda>e. is_call e \<or>
              (\<exists>b. e = Enter_addLiquidityAtBin b tok (currentToken (state m)))) evs"
proof -
  obtain rC mC where C: "priceToBinId env cfg price m = (rC, mC)"
    by (cases "priceToBinId env cfg price m")
  have bC: "behaves is_call (\<lambda>_. True) (\<lambda>st. st) (priceToBinId env cfg price)"
    by (rule behaves_priceToBinId) simp_all
  from behavesD(1)[OF bC C] obtain evsC where
    evsC: "trace mC = trace m @ evsC" "list_all is_call evsC" by blast
  from behavesD(3)[OF bC C] have stC: "state mC = state m" .
  show ?thesis
  proof (cases rC)
    case (Inl e)
    with assms C have "m' = mC" by (simp add: seq_Inl)
    with evsC show ?thesis by (auto simp: list_all_iff)
  next
    case (Inr bin)
    obtain rD mD where D: "addLiquidityAtBin env cfg bin tok mC = (rD, mD)"
      by (cases "addLiquidityAtBin env cfg bin tok mC")
    from addLiquidityAtBin_entered[OF D] stC obtain evsD where
      evsD: "trace mD = trace mC @ Enter_addLiquidityAtBin bin tok (currentToken (state m)) # evsD"
        "list_all is_call evsD" by auto
    from assms C Inr have run: "seq (addLiquidityAtBin env cfg bin tok) (\<lambda>_.
           seq (set_state g1) (\<lambda>_.
           seq (date_now env) (\<lambda>t. set_state (g2 t)))) mC = (r, m')"
      by (simp add: seq_Inr)
    have "trace m' = trace mD"
    proof (cases rD)
      case (Inl e)
      with run D show ?thesis by (simp add: seq_Inl)
    next
      case (Inr u)
      with run D show ?thesis
        by (auto simp: seq_Inr seq_apply set_state_def modify_def date_now_def
            split: prod.splits)
    qed
    with evsC evsD show ?thesis by (auto simp: list_all_iff)
  qed
qed

lemma rebalance_run:
  assumes "rebalance env cfg ev price tok newTok m = (r, m')"
  shows "\<exists>evs. trace m' = trace m @ ev # evs
      \<and> list_all (\<lambda>e. is_call e \<or> (\<exists>p. e = Enter_collectFeesAndRewards p)
                     \<or> (\<exists>p. e = Enter_removeLiquidity p)
                     \<or> (\<exists>b. e = Enter_addLiquidityAtBin b tok (currentToken (state m)))) evs
      \<and> (\<forall>pid. currentPositionId (state m) = Some pid \<and> pid \<noteq> [] \<longrightarrow>
             Enter_removeLiquidity pid \<in> set evs)"
proof -
  let ?m0 = "m\<lparr>trace := trace m @ [ev]\<rparr>"
  let ?pid = "currentPositionId (state m)"
  let ?PA = "\<lambda>e. is_call e \<or> (\<exists>p. e = Enter_collectFeesAndRewards p)"
  let ?PB = "\<lambda>e. is_call e \<or> (\<exists>p. e = Enter_removeLiquidity p)"
  obtain rA mA where A: "when_truthy ?pid (collectFeesAndRewards env cfg) ?m0 = (rA, mA)"
    by (cases "when_truthy ?pid (collectFeesAndRewards env cfg) ?m0")
  have bA: "behaves ?PA (\<lambda>_. False) (\<lambda>st. st) (when_truthy ?pid (collectFeesAndRewards env cfg))"
    by (intro behaves_when_truthy behaves_collectFeesAndRewards) auto
  from behavesD(1)[OF bA A] obtain evsA where
    evsA: "trace mA = trace m @ ev # evsA" "list_all ?PA evsA" by auto
  from behavesD(2)[OF bA A] have rA: "rA = Inr ()" by (cases rA) auto
  from behavesD(3)[OF bA A] have stA: "state mA = state m" by simp
  obtain rB mB where B: "when_truthy ?pid (removeLiquidity env cfg) mA = (rB, mB)"
    by (cases "when_truthy ?pid (removeLiquidity env cfg) mA")
  have bB: "behaves ?PB (\<lambda>_. True) currentToken (when_truthy ?pid (removeLiquidity env cfg))"
    by (intro behaves_when_truthy behaves_removeLiquidity) auto
  from behavesD(1)[OF bB B] obtain evsB where
    evsB: "trace mB = trace mA @ evsB" "list_all ?PB evsB" by auto
  from behavesD(3)[OF bB B] stA have tokB: "currentToken (state mB) = currentToken (state m)"
    by simp
  have memB: "Enter_removeLiquidity pid \<in> set evsB" if "?pid = Some pid" "pid \<noteq> []" for pid
  proof -
    from B that have "removeLiquidity env cfg pid mA = (rB, mB)"
      by (simp add: when_truthy_def)
    from removeLiquidity_entered[OF this] evsB(1) show ?thesis by auto
  qed
  have "\<exists>evsT. trace m' = trace mB @ evsT \<and>
           list_all (\<lambda>e. is_call e \<or>
              (\<exists>b. e = Enter_addLiquidityAtBin b tok (currentToken (state m)))) evsT"
  proof (cases rB)
    case (Inl e)
    from assms have "m' = mB"
      unfolding rebalance_def try_catch_rethrow
      by (simp add: seq_record_event seq_gets seq_Inr[where p = "when_truthy ?pid (collectFeesAndRewards env cfg)" and m = ?m0, OF A[unfolded rA]] stA
            seq_Inl[where p = "when_truthy ?pid (removeLiquidity env cfg)" and m = mA, OF B[unfolded Inl]])
    then show ?thesis by simp
  next
    case (Inr u)
    from assms show ?thesis
      unfolding rebalance_def try_catch_rethrow
      apply (simp add: seq_record_event seq_gets seq_Inr[where p = "when_truthy ?pid (collectFeesAndRewards env cfg)" and m = ?m0, OF A[unfolded rA]] stA
            seq_Inr[where p = "when_truthy ?pid (removeLiquidity env cfg)" and m = mA, OF B[unfolded Inr]])
      apply (drule rebalance_tail)
      apply (simp add: tokB)
      done
  qed
  then obtain evsT where evsT: "trace m' = trace mB @ evsT"
    "list_all (\<lambda>e. is_call e \<or>
              (\<exists>b. e = Enter_addLiquidityAtBin b tok (currentToken (state m)))) evsT" by blast
  have tr: "trace m' = trace m @ ev # (evsA @ evsB @ evsT)"
    by (simp add: evsT(1) evsB(1) evsA(1))
  show ?thesis
  proof (intro exI[of _ "evsA @ evsB @ evsT"] conjI allI impI)
    show "trace m' = trace m @ ev # evsA @ evsB @ evsT" by (rule tr)
    show "list_all (\<lambda>e. is_call e \<or> (\<exists>p. e = Enter_collectFeesAndRewards p)
                     \<or> (\<exists>p. e = Enter_removeLiquidity p)
                     \<or> (\<exists>b. e = Enter_addLiquidityAtBin b tok (currentToken (state m))))
            (evsA @ evsB @ evsT)"
      using evsA(2) evsB(2) evsT(2) by (auto simp: list_all_iff)
    fix pid assume "currentPositionId (state m) = Some pid \<and> pid \<noteq> []"
    then show "Enter_removeLiquidity pid \<in> set (evsA @ evsB @ evsT)"
      using memB by simp
  qed
qed

subsection \<open>Withdrawals, start-up and one poll iteration\<close>

lemma removal_requests_removeLiquidity:
  "\<forall>opt \<in> set (removal_requests (new_events (removeLiquidity env cfg pid) m)).
     ro_is_only_a opt = (currentToken (state m) = USDT) \<and> ro_coin_amount opt = positionSize cfg"
  by (auto simp: new_events_def removal_requests_def removeLiquidity_def seq_def try_catch_def
        gets_def modify_def record_event_def call_def set_state_def ret_def throw_def Let_def
      split: prod.splits sum.splits)

lemma positionSize_unused:
  "addLiquidityAtBin env (cfg\<lparr>positionSize := p\<rparr>) b t = addLiquidityAtBin env cfg b t"
  "collectFeesAndRewards env (cfg\<lparr>positionSize := p\<rparr>) pid = collectFeesAndRewards env cfg pid"
  "priceToBinId env (cfg\<lparr>positionSize := p\<rparr>) price = priceToBinId env cfg price"
  "detectInitialToken env (cfg\<lparr>positionSize := p\<rparr>) = detectInitialToken env cfg"
  by (simp_all add: addLiquidityAtBin_def addLiquidityAtBin_submit_def getTokenBalances_def
       collectFeesAndRewards_def priceToBinId_def detectInitialToken_def getExistingPositions_def
       Let_def cong: if_cong)

lemma detectInitialToken_run:
  obtains bal m1 where
    "getTokenBalances env cfg m = (Inr bal, m1)"
    "detectInitialToken env cfg m =
       (Inr (), m1\<lparr>state := (state m1)\<lparr>currentToken :=
          (if js_gt (parseFloat env (usdc bal)) (parseFloat env (usdt bal)) then USDC else USDT)\<rparr>\<rparr>)"
proof -
  obtain r m1 where g: "getTokenBalances env cfg m = (r, m1)"
    by (cases "getTokenBalances env cfg m")
  from getTokenBalances_run[OF g] obtain bal where r: "r = Inr bal" by blast
  have "detectInitialToken env cfg m =
       (Inr (), m1\<lparr>state := (state m1)\<lparr>currentToken :=
          (if js_gt (parseFloat env (usdc bal)) (parseFloat env (usdt bal)) then USDC else USDT)\<rparr>\<rparr>)"
    unfolding detectInitialToken_def
    by (simp add: try_catch_def seq_apply g r set_state_def modify_def Let_def)
  with g r show thesis by (intro that[of bal m1]) simp_all
qed

lemma placements_all:
  "list_all (\<lambda>e. \<forall>b t h. e = Enter_addLiquidityAtBin b t h \<longrightarrow> Q b t h) evs \<Longrightarrow>
   \<forall>(b, t, h) \<in> set (placements evs). Q b t h"
  by (induction evs) (auto simp: placements_def split: event.splits)

lemma getCurrentPrice_run:
  obtains p m1 evs where
    "getCurrentPrice env m = (Inr p, m1)" "state m1 = state m" "poolAddress m1 = poolAddress m"
    "trace m1 = trace m @ evs" "list_all is_call evs"
proof -
  obtain r m1 where g: "getCurrentPrice env m = (r, m1)" by (cases "getCurrentPrice env m")
  have b: "behaves is_call (\<lambda>_. False) (\<lambda>st. st) (getCurrentPrice env)"
    by (rule behaves_getCurrentPrice) simp
  from behavesD(2)[OF b g] obtain p where "r = Inr p" by (cases r) auto
  with g behavesD(1,3,4)[OF b g] show thesis by (auto intro: that)
qed

lemma getCurrentPrice_failure:
  "price_read_fails env m \<Longrightarrow> fst (getCurrentPrice env m) = Inr ''1.0000''"
  by (auto simp: price_read_fails_def getCurrentPrice_def try_catch_def seq_def gets_def
        call_def throw_def ret_def split: prod.splits sum.splits if_splits)

text \<open>One poll iteration, told from the price it reads.\<close>

lemma checkAndExecuteStrategy_run:
  obtains m1 evs where
    "getCurrentPrice env m = (Inr (price_reading env m), m1)"
    "state m1 = state m" "poolAddress m1 = poolAddress m"
    "trace m1 = trace m @ evs" "list_all is_call evs"
    "checkAndExecuteStrategy env cfg m =
       (if currentToken (state m) = USDT then
          (if js_le (parseFloat env (price_reading env m)) (parseFloat env (lowerPrice cfg))
           then executeBuyUSDC env cfg m1 else (Inr (), m1))
        else
          (if js_ge (parseFloat env (price_reading env m)) (parseFloat env (upperPrice cfg))
           then executeBuyUSDT env cfg m1 else (Inr (), m1)))"
proof -
  obtain p m1 evs where g: "getCurrentPrice env m = (Inr p, m1)" and st: "state m1 = state m"
    and pa: "poolAddress m1 = poolAddress m" and tr: "trace m1 = trace m @ evs"
    and ev: "list_all is_call evs"
    by (rule getCurrentPrice_run)
  have pr: "price_reading env m = p" by (simp add: price_reading_def g)
  have "checkAndExecuteStrategy env cfg m =
       (if currentToken (state m) = USDT then
          (if js_le (parseFloat env p) (parseFloat env (lowerPrice cfg))
           then executeBuyUSDC env cfg m1 else (Inr (), m1))
        else
          (if js_ge (parseFloat env p) (parseFloat env (upperPrice cfg))
           then executeBuyUSDT env cfg m1 else (Inr (), m1)))"
    unfolding checkAndExecuteStrategy_def
    by (simp add: seq_Inr[where p = "getCurrentPrice env" and m = m, OF g] seq_gets st ret_def)
  with g st pa tr ev pr show thesis by (intro that[of m1 evs]) simp_all
qed

lemma no_trigger:
  assumes "\<not> (currentToken (state m) = USDT \<and>
      js_le (parseFloat env (price_reading env m)) (parseFloat env (lowerPrice cfg)))"
    and "\<not> (currentToken (state m) \<noteq> USDT \<and>
      js_ge (parseFloat env (price_reading env m)) (parseFloat env (upperPrice cfg)))"
  shows "fst (checkAndExecuteStrategy env cfg m) = Inr ()"
    and "state (snd (checkAndExecuteStrategy env cfg m)) = state m"
    and "poolAddress (snd (checkAndExecuteStrategy env cfg m)) = poolAddress m"
    and "new_events (checkAndExecuteStrategy env cfg) m = new_events (getCurrentPrice env) m"
    and "list_all is_call (new_events (checkAndExecuteStrategy env cfg) m)"
proof -
  obtain m1 evs where g: "getCurrentPrice env m = (Inr (price_reading env m), m1)"
    and st: "state m1 = state m" and pa: "poolAddress m1 = poolAddress m"
    and tr: "trace m1 = trace m @ evs" and ev: "list_all is_call evs"
    and run: "checkAndExecuteStrategy env cfg m =
       (if currentToken (state m) = USDT then
          (if js_le (parseFloat env (price_reading env m)) (parseFloat env (lowerPrice cfg))
           then executeBuyUSDC env cfg m1 else (Inr (), m1))
        else
          (if js_ge (parseFloat env (price_reading env m)) (parseFloat env (upperPrice cfg))
           then executeBuyUSDT env cfg m1 else (Inr (), m1)))"
    by (rule checkAndExecuteStrategy_run)
  from run assms have r: "checkAndExecuteStrategy env cfg m = (Inr (), m1)" by auto
  show "fst (checkAndExecuteStrategy env cfg m) = Inr ()" by (simp add: r)
  show "state (snd (checkAndExecuteStrategy env cfg m)) = state m" by (simp add: r st)
  show "poolAddress (snd (checkAndExecuteStrategy env cfg m)) = poolAddress m" by (simp add: r pa)
  show "new_events (checkAndExecuteStrategy env cfg) m = new_events (getCurrentPrice env) m"
    by (simp add: new_events_def r g)
  show "list_all is_call (new_events (checkAndExecuteStrategy env cfg) m)"
    by (simp add: new_events_def r tr ev)
qed

lemma trigger:
  assumes "currentToken (state m) = held"
    and "held = USDT \<and> ev = Enter_executeBuyUSDC \<and>
           js_le (parseFloat env (price_reading env m)) (parseFloat env (lowerPrice cfg))
         \<or> held = USDC \<and> ev = Enter_executeBuyUSDT \<and>
           js_ge (parseFloat env (price_reading env m)) (parseFloat env (upperPrice cfg))"
  shows "\<exists>evs1 evs2. new_events (checkAndExecuteStrategy env cfg) m = evs1 @ ev # evs2
      \<and> list_all is_call evs1
      \<and> list_all (\<lambda>e. is_call e \<or> (\<exists>p. e = Enter_collectFeesAndRewards p)
                     \<or> (\<exists>p. e = Enter_removeLiquidity p)
                     \<or> (\<exists>b. e = Enter_addLiquidityAtBin b held held)) evs2"
proof -
  obtain m1 evs where g: "getCurrentPrice env m = (Inr (price_reading env m), m1)"
    and st: "state m1 = state m" and pa: "poolAddress m1 = poolAddress m"
    and tr: "trace m1 = trace m @ evs" and ev: "list_all is_call evs"
    and run: "checkAndExecuteStrategy env cfg m =
       (if currentToken (state m) = USDT then
          (if js_le (parseFloat env (price_reading env m)) (parseFloat env (lowerPrice cfg))
           then executeBuyUSDC env cfg m1 else (Inr (), m1))
        else
          (if js_ge (parseFloat env (price_reading env m)) (parseFloat env (upperPrice cfg))
           then executeBuyUSDT env cfg m1 else (Inr (), m1)))"
    by (rule checkAndExecuteStrategy_run)
  obtain price newTok where
    run': "checkAndExecuteStrategy env cfg m = rebalance env cfg ev price held newTok m1"
    using run assms by (auto simp: executeBuyUSDC_rebalance executeBuyUSDT_rebalance)
  obtain r m' where rm: "rebalance env cfg ev price held newTok m1 = (r, m')"
    by (cases "rebalance env cfg ev price held newTok m1")
  from rebalance_run[OF rm] st assms(1) obtain evs2 where
    "trace m' = trace m1 @ ev # evs2"
    "list_all (\<lambda>e. is_call e \<or> (\<exists>p. e = Enter_collectFeesAndRewards p)
                     \<or> (\<exists>p. e = Enter_removeLiquidity p)
                     \<or> (\<exists>b. e = Enter_addLiquidityAtBin b held held)) evs2"
    by auto
  with tr ev run' rm show ?thesis
    by (intro exI[of _ evs] exI[of _ evs2]) (simp add: new_events_def)
qed

lemma is_call_no_entry:
  "list_all is_call evs \<Longrightarrow>
     Enter_executeBuyUSDC \<notin> set evs \<and> Enter_executeBuyUSDT \<notin> set evs"
  by (auto simp: list_all_iff)

lemma check_triggers_USDC:
  "(Enter_executeBuyUSDC \<in> set (new_events (checkAndExecuteStrategy env cfg) m)) =
     (currentToken (state m) = USDT \<and>
      js_le (parseFloat env (price_reading env m)) (parseFloat env (lowerPrice cfg)))"
proof (cases "currentToken (state m) = USDT \<and>
      js_le (parseFloat env (price_reading env m)) (parseFloat env (lowerPrice cfg))")
  case True
  from trigger[where held = USDT and ev = Enter_executeBuyUSDC and m = m and env = env and cfg = cfg]
    True show ?thesis by auto
next
  case no_low: False
  show ?thesis
  proof (cases "currentToken (state m) \<noteq> USDT \<and>
      js_ge (parseFloat env (price_reading env m)) (parseFloat env (upperPrice cfg))")
    case True
    then have h: "currentToken (state m) = USDC" by (cases "currentToken (state m)") auto
    from trigger[where held = USDC and ev = Enter_executeBuyUSDT and m = m and env = env and cfg = cfg]
      True h obtain evs1 evs2 where
      "new_events (checkAndExecuteStrategy env cfg) m = evs1 @ Enter_executeBuyUSDT # evs2"
      "list_all is_call evs1"
      "list_all (\<lambda>e. is_call e \<or> (\<exists>p. e = Enter_collectFeesAndRewards p)
                     \<or> (\<exists>p. e = Enter_removeLiquidity p)
                     \<or> (\<exists>b. e = Enter_addLiquidityAtBin b USDC USDC)) evs2"
      by auto
    then have "Enter_executeBuyUSDC \<notin> set (new_events (checkAndExecuteStrategy env cfg) m)"
      by (auto simp: list_all_iff)
    with no_low show ?thesis by simp
  next
    case False
    from no_trigger(5)[OF no_low False] is_call_no_entry no_low show ?thesis by blast
  qed
qed

lemma check_triggers_USDT:
  "(Enter_executeBuyUSDT \<in> set (new_events (checkAndExecuteStrategy env cfg) m)) =
     (currentToken (state m) = USDC \<and>
      js_ge (parseFloat env (price_reading env m)) (parseFloat env (upperPrice cfg)))"
proof (cases "currentToken (state m) \<noteq> USDT \<and>
      js_ge (parseFloat env (price_reading env m)) (parseFloat env (upperPrice cfg))")
  case True
  then have h: "currentToken (state m) = USDC" by (cases "currentToken (state m)") auto
  from trigger[where held = USDC and ev = Enter_executeBuyUSDT and m = m and env = env and cfg = cfg]
    True h show ?thesis by auto
next
  case no_high: False
  then have nh: "\<not> (currentToken (state m) = USDC \<and>
      js_ge (parseFloat env (price_reading env m)) (parseFloat env (upperPrice cfg)))" by auto
  show ?thesis
  proof (cases "currentToken (state m) = USDT \<and>
      js_le (parseFloat env (price_reading env m)) (parseFloat env (lowerPrice cfg))")
    case True
    from trigger[where held = USDT and ev = Enter_executeBuyUSDC and m = m and env = env and cfg = cfg]
      True obtain evs1 evs2 where
      "new_events (checkAndExecuteStrategy env cfg) m = evs1 @ Enter_executeBuyUSDC # evs2"
      "list_all is_call evs1"
      "list_all (\<lambda>e. is_call e \<or> (\<exists>p. e = Enter_collectFeesAndRewards p)
                     \<or> (\<exists>p. e = Enter_removeLiquidity p)
                     \<or> (\<exists>b. e = Enter_addLiquidityAtBin b USDT USDT)) evs2"
      by auto
    then have "Enter_executeBuyUSDT \<notin> set (new_events (checkAndExecuteStrategy env cfg) m)"
      by (auto simp: list_all_iff)
    with nh show ?thesis by simp
  next
    case False
    from no_trigger(5)[OF False no_high] is_call_no_entry nh show ?thesis by blast
  qed
qed

lemma detectInitialToken_only_reads_balances:
  "fst (detectInitialToken env cfg m) = Inr ()"
  "new_events (detectInitialToken env cfg) m =
     [Call_getBalance (senderAddress cfg) USDCType, Call_getBalance (senderAddress cfg) USDTType]"
proof -
  obtain bal m1 where g: "getTokenBalances env cfg m = (Inr bal, m1)"
    and d: "detectInitialToken env cfg m =
       (Inr (), m1\<lparr>state := (state m1)\<lparr>currentToken :=
          (if js_gt (parseFloat env (usdc bal)) (parseFloat env (usdt bal)) then USDC else USDT)\<rparr>\<rparr>)"
    by (rule detectInitialToken_run)
  show "fst (detectInitialToken env cfg m) = Inr ()" by (simp add: d)
  from getTokenBalances_run[OF g]
  show "new_events (detectInitialToken env cfg) m =
     [Call_getBalance (senderAddress cfg) USDCType, Call_getBalance (senderAddress cfg) USDTType]"
    by (simp add: new_events_def d)
qed

text \<open>The held asset after \<^verbatim>\<open>detectInitialToken\<close>: USDC when the parsed USDC balance is
  greater than the parsed USDT balance, USDT otherwise (greater USDT balance, or neither).\<close>

lemma detectInitialToken_decision:
  "currentToken (state (snd (detectInitialToken env cfg m))) =
     (if js_gt (parseFloat env (available_balance env cfg USDC m))
               (parseFloat env (available_balance env cfg USDT m))
      then USDC else USDT)"
proof -
  obtain bal m1 where g: "getTokenBalances env cfg m = (Inr bal, m1)"
    and d: "detectInitialToken env cfg m =
       (Inr (), m1\<lparr>state := (state m1)\<lparr>currentToken :=
          (if js_gt (parseFloat env (usdc bal)) (parseFloat env (usdt bal)) then USDC else USDT)\<rparr>\<rparr>)"
    by (rule detectInitialToken_run)
  show ?thesis by (simp add: d available_balance_def g)
qed

subsection \<open>Runs of the model on the concrete chain\<close>

lemmas model_defs =
  getCurrentPrice_def priceToBinId_def getTokenBalances_def getExistingPositions_def
  detectInitialToken_def collectFeesAndRewards_def removeLiquidity_def
  addLiquidityAtBin_submit_def addLiquidityAtBin_def executeBuyUSDC_def executeBuyUSDT_def
  checkAndExecuteStrategy_def date_now_def extractPositionId_def or_zero_def
  seq_def try_catch_def gets_def modify_def record_event_def call_def promise_all_def
  pure_call_def set_state_def ret_def throw_def when_truthy_def
  new_events_def js_gt_def js_ge_def Let_def
  USDCType_def USDTType_def positionType_def

lemmas demo_defs =
  defaultConfig_def initialState_def demoParseFloat_def demoPool_def demoResult_def
  demoEnv_def demoMachine_def demoMachineUSDC_def

lemma demo_held_assets:
  "currentToken (state demoMachine) = USDT"
  "currentToken (state demoMachineUSDC) = USDC"
  by (simp_all add: demo_defs)

lemma demo_withdrawal_holding_USDC:
  "removal_requests (new_events (removeLiquidity demoEnv defaultConfig ''0xpos1'') demoMachineUSDC)
     = [\<lparr>ro_bins = ''bins'', ro_active_id = - 6, ro_is_only_a = False,
         ro_coin_amount = ''1000000''\<rparr>]"
  by (simp add: model_defs demo_defs removal_requests_def)

lemma demo_withdrawal_holding_USDT:
  "removal_requests (new_events (removeLiquidity demoEnv defaultConfig ''0xpos1'') demoMachine)
     = [\<lparr>ro_bins = ''bins'', ro_active_id = - 6, ro_is_only_a = True,
         ro_coin_amount = ''1000000''\<rparr>]"
  by (simp add: model_defs demo_defs removal_requests_def)

lemma demo_low_price:
  "js_le (parseFloat demoEnv (price_reading demoEnv demoMachine))
         (parseFloat demoEnv (lowerPrice defaultConfig))"
  by (simp add: model_defs demo_defs price_reading_def)

lemma demo_high_price:
  "js_ge (parseFloat highPriceEnv (price_reading highPriceEnv demoMachineUSDC))
         (parseFloat highPriceEnv (upperPrice defaultConfig))"
  by (simp add: model_defs demo_defs price_reading_def highPriceEnv_def)

lemma demo_in_band:
  "js_lt (parseFloat inBandEnv (lowerPrice defaultConfig))
         (parseFloat inBandEnv (price_reading inBandEnv demoMachine))"
  "js_lt (parseFloat inBandEnv (price_reading inBandEnv demoMachine))
         (parseFloat inBandEnv (upperPrice defaultConfig))"
  by (simp_all add: model_defs demo_defs price_reading_def inBandEnv_def)

lemma demo_rebalance_placements:
  "placements (new_events (checkAndExecuteStrategy demoEnv defaultConfig) demoMachine)
     = [(- 5, USDT, USDT)]"
  by (simp add: model_defs demo_defs placements_def)

lemma demo_deposit:
  "available_balance demoEnv defaultConfig USDT demoMachine = ''100000000''"
  "positionSize defaultConfig = ''1000000''"
  "map co_coin_amount
     (deposit_requests (new_events (addLiquidityAtBin demoEnv defaultConfig (- 5) USDT) demoMachine))
     = [''100000000'']"
  by (simp_all add: model_defs demo_defs available_balance_def deposit_requests_def)

lemma demo_balance_queries:
  "getBalance demoEnv (senderAddress defaultConfig) USDCType (world demoMachine) = (Inr ''0'', ())"
  "getBalance demoEnv (senderAddress defaultConfig) USDTType () = (Inr ''100000000'', ())"
  "bnToString demoEnv ''0'' = Inr ''0''"
  "bnToString demoEnv ''100000000'' = Inr ''100000000''"
  by (simp_all add: model_defs demo_defs)

lemma demo_failed_price_read:
  "price_read_fails noPoolEnv demoMachine"
  "js_lt (parseFloat noPoolEnv (lowerPrice defaultConfig)) (parseFloat noPoolEnv ''1.0000'')"
  "js_lt (parseFloat noPoolEnv ''1.0000'') (parseFloat noPoolEnv (upperPrice defaultConfig))"
  by (simp_all add: model_defs demo_defs price_read_fails_def noPoolEnv_def)

lemma demo_failed_price_read_band_above_one:
  "js_lt (parseFloat noPoolEnv
            (lowerPrice (createCustomConfig ''1.0010'' ''1.0001'' ''1000000'' ''0xYourWalletAddress'')))
         (parseFloat noPoolEnv
            (upperPrice (createCustomConfig ''1.0010'' ''1.0001'' ''1000000'' ''0xYourWalletAddress'')))"
  "Enter_executeBuyUSDC \<in> set (new_events
       (checkAndExecuteStrategy noPoolEnv
          (createCustomConfig ''1.0010'' ''1.0001'' ''1000000'' ''0xYourWalletAddress''))
       demoMachine)"
  by (simp_all add: model_defs demo_defs noPoolEnv_def createCustomConfig_def)

lemma demo_failed_collection:
  "currentPositionId (state demoMachineUSDC) = Some ''0xpos1''"
  "Call_signAndExecuteTransaction ''collectTx''
     \<notin> set (new_events (executeBuyUSDT noCollectEnv defaultConfig) demoMachineUSDC)"
  by (simp_all add: model_defs demo_defs noCollectEnv_def)

lemma demo_failed_balance_read:
  "balance_read_fails noBalanceEnv defaultConfig demoMachineUSDC"
  "js_le (parseFloat noBalanceEnv ''0'') (Fin 0)"
  "fst (getExistingPositions noBalanceEnv defaultConfig demoMachineUSDC) = Inr [''0xpos1'']"
  by (simp_all add: model_defs demo_defs balance_read_fails_def noBalanceEnv_def)

lemma demo_failed_balance_read_detect:
  "fst (detectInitialToken noBalanceEnv defaultConfig demoMachineUSDC) = Inr ()
   \<and> currentToken (state (snd (detectInitialToken noBalanceEnv defaultConfig demoMachineUSDC)))
       = USDT"
  by (simp add: model_defs demo_defs noBalanceEnv_def)

lemma demo_usdc_balance_is_zero:
  "js_le (parseFloat demoEnv (available_balance demoEnv defaultConfig USDC demoMachine)) (Fin 0)"
  by (simp add: model_defs demo_defs available_balance_def)

section \<open>The claims\<close>

text \<open>
  Claim C1. The claim asks that a placement whose transaction yields no position id fails and
  leaves \<^verbatim>\<open>currentPositionId\<close> unset. The code does otherwise: on the concrete chain the
  open-position transaction succeeds and reports neither a created \<^verbatim>\<open>position::Position\<close>
  object nor a \<^verbatim>\<open>position::PositionCreated\<close> event; \<^verbatim>\<open>extractPositionId\<close> returns the
  constant \<^verbatim>\<open>'0xposition123'\<close>, the placement completes without an error, and the
  previously unset \<^verbatim>\<open>currentPositionId\<close> now holds that constant.
\<close>

theorem C1_placeholder_adopted:
  "extractPositionId demoResult = Some ''0xposition123''
   \<and> currentPositionId (state demoMachine) = None
   \<and> fst (addLiquidityAtBin demoEnv defaultConfig (- 5) USDT demoMachine) = Inr ()
   \<and> currentPositionId (state (snd (addLiquidityAtBin demoEnv defaultConfig (- 5) USDT demoMachine)))
       = Some ''0xposition123''"
  by (simp add: model_defs demo_defs)

text \<open>
  Claim C2, as amended. Every withdrawal plan that \<^verbatim>\<open>removeLiquidity\<close> requests carries
  \<^verbatim>\<open>is_only_a = true\<close> when the held asset is USDT (asset B) and \<^verbatim>\<open>is_only_a = false\<close>
  when it is USDC (asset A): the flag is \<^verbatim>\<open>this.state.currentToken === 'USDT'\<close>. The claim
  as written has the two assets the other way round.
\<close>

theorem C2_withdrawal_side:
  "\<forall>opt \<in> set (removal_requests (new_events (removeLiquidity env cfg pid) m)).
      ro_is_only_a opt = (currentToken (state m) = USDT)"
  using removal_requests_removeLiquidity[of env cfg pid m] by blast

text \<open>The amended statement at work on both held assets.\<close>

theorem C2_witness:
  "\<lparr>ro_bins = ''bins'', ro_active_id = - 6, ro_is_only_a = False, ro_coin_amount = ''1000000''\<rparr>
      \<in> set (removal_requests
           (new_events (removeLiquidity demoEnv defaultConfig ''0xpos1'') demoMachineUSDC))
   \<and> False = (currentToken (state demoMachineUSDC) = USDT)
   \<and> \<lparr>ro_bins = ''bins'', ro_active_id = - 6, ro_is_only_a = True, ro_coin_amount = ''1000000''\<rparr>
      \<in> set (removal_requests
           (new_events (removeLiquidity demoEnv defaultConfig ''0xpos1'') demoMachine))
   \<and> True = (currentToken (state demoMachine) = USDT)"
  using C2_withdrawal_side[of demoEnv defaultConfig "''0xpos1''" demoMachineUSDC]
    C2_withdrawal_side[of demoEnv defaultConfig "''0xpos1''" demoMachine]
    demo_withdrawal_holding_USDC demo_withdrawal_holding_USDT demo_held_assets
  by simp

text \<open>The claim as written fails: holding USDC (asset A), the plan is requested with
  \<^verbatim>\<open>is_only_a = false\<close>.\<close>

theorem C2_counterexample:
  "currentToken (state demoMachineUSDC) = USDC
   \<and> map ro_is_only_a
        (removal_requests
           (new_events (removeLiquidity demoEnv defaultConfig ''0xpos1'') demoMachineUSDC))
       = [False]"
  using demo_withdrawal_holding_USDC demo_held_assets(2) by simp

text \<open>
  Claim C3. In a poll iteration started while holding USDT, \<^verbatim>\<open>executeBuyUSDC\<close> is entered
  exactly when the price read is at most the lower bound (JavaScript \<^verbatim>\<open><=\<close> on the parsed
  numbers), and \<^verbatim>\<open>executeBuyUSDT\<close> is not entered; holding USDC, \<^verbatim>\<open>executeBuyUSDT\<close> is
  entered exactly when the price is at least the upper bound, and \<^verbatim>\<open>executeBuyUSDC\<close> is
  not. For a price strictly inside the band the iteration returns normally, leaves the
  strategy state and the pool address as they were, and does nothing beyond the price read.
\<close>

theorem C3_guard_inclusive:
  "(currentToken (state m) = USDT \<longrightarrow>
      (Enter_executeBuyUSDC \<in> set (new_events (checkAndExecuteStrategy env cfg) m))
        = js_le (parseFloat env (price_reading env m)) (parseFloat env (lowerPrice cfg))
      \<and> Enter_executeBuyUSDT \<notin> set (new_events (checkAndExecuteStrategy env cfg) m))
   \<and> (currentToken (state m) = USDC \<longrightarrow>
      (Enter_executeBuyUSDT \<in> set (new_events (checkAndExecuteStrategy env cfg) m))
        = js_ge (parseFloat env (price_reading env m)) (parseFloat env (upperPrice cfg))
      \<and> Enter_executeBuyUSDC \<notin> set (new_events (checkAndExecuteStrategy env cfg) m))
   \<and> (js_lt (parseFloat env (lowerPrice cfg)) (parseFloat env (price_reading env m))
       \<and> js_lt (parseFloat env (price_reading env m)) (parseFloat env (upperPrice cfg)) \<longrightarrow>
        fst (checkAndExecuteStrategy env cfg m) = Inr ()
      \<and> state (snd (checkAndExecuteStrategy env cfg m)) = state m
      \<and> poolAddress (snd (checkAndExecuteStrategy env cfg m)) = poolAddress m
      \<and> new_events (checkAndExecuteStrategy env cfg) m = new_events (getCurrentPrice env) m
      \<and> list_all is_call (new_events (checkAndExecuteStrategy env cfg) m))"
proof (intro conjI impI)
  assume "currentToken (state m) = USDT"
  then show "(Enter_executeBuyUSDC \<in> set (new_events (checkAndExecuteStrategy env cfg) m))
        = js_le (parseFloat env (price_reading env m)) (parseFloat env (lowerPrice cfg))"
    and "Enter_executeBuyUSDT \<notin> set (new_events (checkAndExecuteStrategy env cfg) m)"
    by (simp_all add: check_triggers_USDC check_triggers_USDT)
next
  assume "currentToken (state m) = USDC"
  then show "(Enter_executeBuyUSDT \<in> set (new_events (checkAndExecuteStrategy env cfg) m))
        = js_ge (parseFloat env (price_reading env m)) (parseFloat env (upperPrice cfg))"
    and "Enter_executeBuyUSDC \<notin> set (new_events (checkAndExecuteStrategy env cfg) m)"
    by (simp_all add: check_triggers_USDC check_triggers_USDT)
next
  assume band: "js_lt (parseFloat env (lowerPrice cfg)) (parseFloat env (price_reading env m))
       \<and> js_lt (parseFloat env (price_reading env m)) (parseFloat env (upperPrice cfg))"
  then have a: "\<not> (currentToken (state m) = USDT \<and>
      js_le (parseFloat env (price_reading env m)) (parseFloat env (lowerPrice cfg)))"
    and b: "\<not> (currentToken (state m) \<noteq> USDT \<and>
      js_ge (parseFloat env (price_reading env m)) (parseFloat env (upperPrice cfg)))"
    by (auto simp: js_ge_def dest: js_lt_not_le)
  from no_trigger[OF a b]
  show "fst (checkAndExecuteStrategy env cfg m) = Inr ()"
    and "state (snd (checkAndExecuteStrategy env cfg m)) = state m"
    and "poolAddress (snd (checkAndExecuteStrategy env cfg m)) = poolAddress m"
    and "new_events (checkAndExecuteStrategy env cfg) m = new_events (getCurrentPrice env) m"
    and "list_all is_call (new_events (checkAndExecuteStrategy env cfg) m)"
    by simp_all
qed

text \<open>A breach of the lower bound while holding USDT, a breach of the upper bound while
  holding USDC, and a price inside the band.\<close>

theorem C3_witness:
  "currentToken (state demoMachine) = USDT
   \<and> js_le (parseFloat demoEnv (price_reading demoEnv demoMachine))
           (parseFloat demoEnv (lowerPrice defaultConfig))
   \<and> Enter_executeBuyUSDC \<in> set (new_events (checkAndExecuteStrategy demoEnv defaultConfig) demoMachine)
   \<and> Enter_executeBuyUSDT \<notin> set (new_events (checkAndExecuteStrategy demoEnv defaultConfig) demoMachine)
   \<and> currentToken (state demoMachineUSDC) = USDC
   \<and> js_ge (parseFloat highPriceEnv (price_reading highPriceEnv demoMachineUSDC))
           (parseFloat highPriceEnv (upperPrice defaultConfig))
   \<and> Enter_executeBuyUSDT
        \<in> set (new_events (checkAndExecuteStrategy highPriceEnv defaultConfig) demoMachineUSDC)
   \<and> js_lt (parseFloat inBandEnv (lowerPrice defaultConfig))
           (parseFloat inBandEnv (price_reading inBandEnv demoMachine))
   \<and> js_lt (parseFloat inBandEnv (price_reading inBandEnv demoMachine))
           (parseFloat inBandEnv (upperPrice defaultConfig))
   \<and> fst (checkAndExecuteStrategy inBandEnv defaultConfig demoMachine) = Inr ()
   \<and> state (snd (checkAndExecuteStrategy inBandEnv defaultConfig demoMachine)) = state demoMachine"
proof -
  note low = C3_guard_inclusive[of demoMachine demoEnv defaultConfig]
  note high = C3_guard_inclusive[of demoMachineUSDC highPriceEnv defaultConfig]
  note band = C3_guard_inclusive[of demoMachine inBandEnv defaultConfig]
  from low demo_held_assets(1) demo_low_price
  have 1: "Enter_executeBuyUSDC \<in> set (new_events (checkAndExecuteStrategy demoEnv defaultConfig) demoMachine)"
    "Enter_executeBuyUSDT \<notin> set (new_events (checkAndExecuteStrategy demoEnv defaultConfig) demoMachine)"
    by blast+
  from high demo_held_assets(2) demo_high_price
  have 2: "Enter_executeBuyUSDT
        \<in> set (new_events (checkAndExecuteStrategy highPriceEnv defaultConfig) demoMachineUSDC)"
    by blast
  from band demo_in_band
  have 3: "fst (checkAndExecuteStrategy inBandEnv defaultConfig demoMachine) = Inr ()"
    "state (snd (checkAndExecuteStrategy inBandEnv defaultConfig demoMachine)) = state demoMachine"
    by blast+
  from 1 2 3 demo_held_assets(1) demo_held_assets(2) demo_low_price
    demo_high_price demo_in_band
  show ?thesis by blast
qed

text \<open>
  Claim C4, as amended. In every poll iteration, each entry into \<^verbatim>\<open>addLiquidityAtBin\<close>
  deposits the asset that \<^verbatim>\<open>state.currentToken\<close> names at that moment, which is still the
  asset held when the iteration began. The claim as written says the deposited asset is the
  opposite one.
\<close>

theorem C4_placement_deposits_held_asset:
  "\<forall>(b, t, held) \<in> set (placements (new_events (checkAndExecuteStrategy env cfg) m)).
      t = held \<and> held = currentToken (state m)"
proof -
  let ?Q = "\<lambda>e. \<forall>b t h. e = Enter_addLiquidityAtBin b t h \<longrightarrow>
               t = h \<and> h = currentToken (state m)"
  have "list_all ?Q (new_events (checkAndExecuteStrategy env cfg) m)"
  proof (cases "currentToken (state m) = USDT \<and>
      js_le (parseFloat env (price_reading env m)) (parseFloat env (lowerPrice cfg))")
    case True
    from trigger[where held = USDT and ev = Enter_executeBuyUSDC and m = m and env = env and cfg = cfg]
      True show ?thesis by (fastforce simp: list_all_iff)
  next
    case no_low: False
    show ?thesis
    proof (cases "currentToken (state m) \<noteq> USDT \<and>
        js_ge (parseFloat env (price_reading env m)) (parseFloat env (upperPrice cfg))")
      case True
      then have h: "currentToken (state m) = USDC" by (cases "currentToken (state m)") auto
      from trigger[where held = USDC and ev = Enter_executeBuyUSDT and m = m and env = env and cfg = cfg]
        True h show ?thesis by (fastforce simp: list_all_iff)
    next
      case False
      from no_trigger(5)[OF no_low False] show ?thesis by (fastforce simp: list_all_iff)
    qed
  qed
  from placements_all[OF this] show ?thesis .
qed

text \<open>The amended statement on a rebalance of the concrete chain.\<close>

theorem C4_witness:
  "(- 5, USDT, USDT)
      \<in> set (placements (new_events (checkAndExecuteStrategy demoEnv defaultConfig) demoMachine))
   \<and> USDT = currentToken (state demoMachine)"
  using C4_placement_deposits_held_asset[of demoEnv defaultConfig demoMachine]
    demo_rebalance_placements
  by simp

text \<open>The claim as written fails: the rebalance out of USDT deposits USDT while
  \<^verbatim>\<open>currentToken\<close> is USDT.\<close>

theorem C4_counterexample:
  "currentToken (state demoMachine) = USDT
   \<and> placements (new_events (checkAndExecuteStrategy demoEnv defaultConfig) demoMachine)
       = [(- 5, USDT, USDT)]
   \<and> \<not> (\<forall>(b, t, held) \<in> set (placements
           (new_events (checkAndExecuteStrategy demoEnv defaultConfig) demoMachine)). t \<noteq> held)"
  using demo_rebalance_placements demo_held_assets(1) by simp

text \<open>
  Claim C5. Every deposit split that \<^verbatim>\<open>addLiquidityAtBin\<close> requests is for the balance of
  the deposited asset as \<^verbatim>\<open>getTokenBalances\<close> reports it, which, when both balance queries
  succeed, is the total balance the chain returned for that asset. Neither this method nor
  \<^verbatim>\<open>collectFeesAndRewards\<close>, \<^verbatim>\<open>priceToBinId\<close> or \<^verbatim>\<open>detectInitialToken\<close> depends on
  \<^verbatim>\<open>config.positionSize\<close> at all. Every withdrawal plan that \<^verbatim>\<open>removeLiquidity\<close>
  requests is for \<^verbatim>\<open>config.positionSize\<close>.
\<close>

theorem C5_deposit_is_full_balance:
  "(\<forall>opt \<in> set (deposit_requests (new_events (addLiquidityAtBin env cfg b t) m)).
      co_coin_amount opt = available_balance env cfg t m)
   \<and> (getBalance env (senderAddress cfg) USDCType (world m) = (Inr ub, w1)
        \<and> getBalance env (senderAddress cfg) USDTType w1 = (Inr tb, w2)
        \<and> bnToString env ub = Inr u \<and> bnToString env tb = Inr v \<longrightarrow>
       available_balance env cfg t m = (if t = USDC then u else v))
   \<and> addLiquidityAtBin env (cfg\<lparr>positionSize := p\<rparr>) b t = addLiquidityAtBin env cfg b t
   \<and> collectFeesAndRewards env (cfg\<lparr>positionSize := p\<rparr>) pid = collectFeesAndRewards env cfg pid
   \<and> priceToBinId env (cfg\<lparr>positionSize := p\<rparr>) price = priceToBinId env cfg price
   \<and> detectInitialToken env (cfg\<lparr>positionSize := p\<rparr>) = detectInitialToken env cfg
   \<and> (\<forall>opt \<in> set (removal_requests (new_events (removeLiquidity env cfg pid) m)).
      ro_coin_amount opt = positionSize cfg)"
proof (intro conjI impI)
  assume "getBalance env (senderAddress cfg) USDCType (world m) = (Inr ub, w1)
        \<and> getBalance env (senderAddress cfg) USDTType w1 = (Inr tb, w2)
        \<and> bnToString env ub = Inr u \<and> bnToString env tb = Inr v"
  then show "available_balance env cfg t m = (if t = USDC then u else v)"
    by (simp add: available_balance_on_success)
next
  show "\<forall>opt \<in> set (deposit_requests (new_events (addLiquidityAtBin env cfg b t) m)).
      co_coin_amount opt = available_balance env cfg t m"
  proof (cases rule: addLiquidityAtBin_cases[where env = env and cfg = cfg and t = t and m = m and b = b])
    case (insufficient m1)
    then show ?thesis by (simp add: new_events_def deposit_requests_def)
  next
    case (submit m1)
    let ?P = "\<lambda>e. is_call e \<and>
       (\<forall>opt. e = Call_calculateAddLiquidityInfo opt \<longrightarrow>
          co_coin_amount opt = available_balance env cfg t m)"
    have beh: "behaves ?P (\<lambda>_. True) (\<lambda>_. ())
            (addLiquidityAtBin_submit env cfg b t (available_balance env cfg t m))"
      by (rule behaves_addLiquidityAtBin_submit) simp_all
    obtain r m2 where rm: "addLiquidityAtBin_submit env cfg b t (available_balance env cfg t m) m1
          = (r, m2)"
      by (cases "addLiquidityAtBin_submit env cfg b t (available_balance env cfg t m) m1")
    from behavesD(1)[OF beh rm] obtain evs where
      evs: "trace m2 = trace m1 @ evs" "list_all ?P evs"
      by blast
    have ne: "new_events (addLiquidityAtBin env cfg b t) m =
            [Enter_addLiquidityAtBin b t (currentToken (state m)),
             Call_getBalance (senderAddress cfg) USDCType,
             Call_getBalance (senderAddress cfg) USDTType] @ evs"
      by (simp add: new_events_def submit(2) rm evs(1) submit(3))
    have "list_all (\<lambda>e. \<forall>opt. e = Call_calculateAddLiquidityInfo opt \<longrightarrow>
          co_coin_amount opt = available_balance env cfg t m) evs"
      using evs(2) by (simp add: list_all_iff)
    from deposit_requests_all[OF this] show ?thesis
      by (simp add: ne deposit_requests_append) (simp add: deposit_requests_def)
  qed
  show "addLiquidityAtBin env (cfg\<lparr>positionSize := p\<rparr>) b t = addLiquidityAtBin env cfg b t"
    and "collectFeesAndRewards env (cfg\<lparr>positionSize := p\<rparr>) pid
           = collectFeesAndRewards env cfg pid"
    and "priceToBinId env (cfg\<lparr>positionSize := p\<rparr>) price = priceToBinId env cfg price"
    and "detectInitialToken env (cfg\<lparr>positionSize := p\<rparr>) = detectInitialToken env cfg"
    by (rule positionSize_unused)+
  show "\<forall>opt \<in> set (removal_requests (new_events (removeLiquidity env cfg pid) m)).
      ro_coin_amount opt = positionSize cfg"
    using removal_requests_removeLiquidity[of env cfg pid m] by blast
qed

text \<open>A placement of 100 USDT with a nominal size of 1, and a withdrawal.\<close>

theorem C5_witness:
  "getBalance demoEnv (senderAddress defaultConfig) USDCType (world demoMachine) = (Inr ''0'', ())
   \<and> getBalance demoEnv (senderAddress defaultConfig) USDTType () = (Inr ''100000000'', ())
   \<and> bnToString demoEnv ''0'' = Inr ''0''
   \<and> bnToString demoEnv ''100000000'' = Inr ''100000000''
   \<and> available_balance demoEnv defaultConfig USDT demoMachine = ''100000000''
   \<and> map co_coin_amount
       (deposit_requests
          (new_events (addLiquidityAtBin demoEnv defaultConfig (- 5) USDT) demoMachine))
       = [available_balance demoEnv defaultConfig USDT demoMachine]
   \<and> available_balance demoEnv defaultConfig USDT demoMachine \<noteq> positionSize defaultConfig
   \<and> \<lparr>ro_bins = ''bins'', ro_active_id = - 6, ro_is_only_a = False, ro_coin_amount = ''1000000''\<rparr>
      \<in> set (removal_requests
           (new_events (removeLiquidity demoEnv defaultConfig ''0xpos1'') demoMachineUSDC))
   \<and> ''1000000'' = positionSize defaultConfig"
  using C5_deposit_is_full_balance[where env = demoEnv and cfg = defaultConfig
      and m = demoMachine and ub = "''0''" and ?w1.0 = "()" and tb = "''100000000''"
      and ?w2.0 = "()" and u = "''0''" and v = "''100000000''" and t = USDT and b = "- 5"
      and p = "''0''" and pid = "''0xpos1''"]
    C5_deposit_is_full_balance[where env = demoEnv and cfg = defaultConfig
      and m = demoMachineUSDC and pid = "''0xpos1''"]
    demo_deposit demo_withdrawal_holding_USDC demo_balance_queries
  by simp

text \<open>
  Claim C6, as amended. \<^verbatim>\<open>getCurrentPrice\<close> never fails, and when the price retrieval
  fails it returns \<^verbatim>\<open>'1.0000'\<close>. The controller applies its ordinary guard to that
  reading: when it lies strictly inside the configured band, the iteration returns normally,
  leaves the strategy state as it was and enters no action method. The claim as written
  promises this for every configuration.
\<close>

theorem C6_neutral_price_on_failure:
  "(\<exists>p. fst (getCurrentPrice env m) = Inr p)
   \<and> (price_read_fails env m \<longrightarrow>
        fst (getCurrentPrice env m) = Inr ''1.0000''
      \<and> (js_lt (parseFloat env (lowerPrice cfg)) (parseFloat env ''1.0000'')
         \<and> js_lt (parseFloat env ''1.0000'') (parseFloat env (upperPrice cfg)) \<longrightarrow>
           fst (checkAndExecuteStrategy env cfg m) = Inr ()
         \<and> state (snd (checkAndExecuteStrategy env cfg m)) = state m
         \<and> list_all is_call (new_events (checkAndExecuteStrategy env cfg) m)))"
proof (intro conjI impI)
  show "\<exists>p. fst (getCurrentPrice env m) = Inr p"
    by (rule getCurrentPrice_run[of env m]) simp
next
  assume f: "price_read_fails env m"
  from getCurrentPrice_failure[OF f] show "fst (getCurrentPrice env m) = Inr ''1.0000''" .
  then have pr: "price_reading env m = ''1.0000''" by (simp add: price_reading_def)
  assume band: "js_lt (parseFloat env (lowerPrice cfg)) (parseFloat env ''1.0000'')
         \<and> js_lt (parseFloat env ''1.0000'') (parseFloat env (upperPrice cfg))"
  then have a: "\<not> (currentToken (state m) = USDT \<and>
      js_le (parseFloat env (price_reading env m)) (parseFloat env (lowerPrice cfg)))"
    and b: "\<not> (currentToken (state m) \<noteq> USDT \<and>
      js_ge (parseFloat env (price_reading env m)) (parseFloat env (upperPrice cfg)))"
    by (auto simp: pr js_ge_def dest: js_lt_not_le)
  from no_trigger[OF a b]
  show "fst (checkAndExecuteStrategy env cfg m) = Inr ()"
    and "state (snd (checkAndExecuteStrategy env cfg m)) = state m"
    and "list_all is_call (new_events (checkAndExecuteStrategy env cfg) m)"
    by simp_all
qed

text \<open>The pool read fails under the default band.\<close>

theorem C6_witness:
  "price_read_fails noPoolEnv demoMachine
   \<and> js_lt (parseFloat noPoolEnv (lowerPrice defaultConfig)) (parseFloat noPoolEnv ''1.0000'')
   \<and> js_lt (parseFloat noPoolEnv ''1.0000'') (parseFloat noPoolEnv (upperPrice defaultConfig))
   \<and> fst (getCurrentPrice noPoolEnv demoMachine) = Inr ''1.0000''
   \<and> fst (checkAndExecuteStrategy noPoolEnv defaultConfig demoMachine) = Inr ()
   \<and> state (snd (checkAndExecuteStrategy noPoolEnv defaultConfig demoMachine)) = state demoMachine"
  using C6_neutral_price_on_failure[of noPoolEnv demoMachine defaultConfig] demo_failed_price_read
  by blast

text \<open>The claim as written fails: with the band 1.0001 - 1.0010 and USDT held, a failed
  pool read is taken for the price 1 and starts the rebalance into USDC.\<close>

theorem C6_counterexample:
  "price_read_fails noPoolEnv demoMachine
   \<and> js_lt (parseFloat noPoolEnv
            (lowerPrice (createCustomConfig ''1.0010'' ''1.0001'' ''1000000'' ''0xYourWalletAddress'')))
         (parseFloat noPoolEnv
            (upperPrice (createCustomConfig ''1.0010'' ''1.0001'' ''1000000'' ''0xYourWalletAddress'')))
   \<and> Enter_executeBuyUSDC \<in> set (new_events
       (checkAndExecuteStrategy noPoolEnv
          (createCustomConfig ''1.0010'' ''1.0001'' ''1000000'' ''0xYourWalletAddress''))
       demoMachine)"
  using demo_failed_price_read(1) demo_failed_price_read_band_above_one by simp

text \<open>
  Claim C7. \<^verbatim>\<open>collectFeesAndRewards\<close> never fails, whatever the collaborators do; and
  when a position is open, both \<^verbatim>\<open>executeBuyUSDC\<close> and \<^verbatim>\<open>executeBuyUSDT\<close> enter
  \<^verbatim>\<open>removeLiquidity\<close> for that position.
\<close>

theorem C7_collection_failure_swallowed:
  "fst (collectFeesAndRewards env cfg pid m) = Inr ()
   \<and> (currentPositionId (state m) = Some pid \<and> pid \<noteq> [] \<longrightarrow>
        Enter_removeLiquidity pid \<in> set (new_events (executeBuyUSDC env cfg) m)
      \<and> Enter_removeLiquidity pid \<in> set (new_events (executeBuyUSDT env cfg) m))"
proof (intro conjI impI)
  show "fst (collectFeesAndRewards env cfg pid m) = Inr ()"
    using collectFeesAndRewards_entered(2)[of env cfg pid m] by (metis prod.collapse)
next
  assume p: "currentPositionId (state m) = Some pid \<and> pid \<noteq> []"
  have "Enter_removeLiquidity pid \<in> set (new_events (rebalance env cfg ev price tok newTok) m)"
    for ev price tok newTok
  proof -
    obtain r m' where rm: "rebalance env cfg ev price tok newTok m = (r, m')"
      by (cases "rebalance env cfg ev price tok newTok m")
    from rebalance_run[OF rm] p obtain evs where
      "trace m' = trace m @ ev # evs" "Enter_removeLiquidity pid \<in> set evs" by blast
    with rm show ?thesis by (simp add: new_events_def)
  qed
  then show "Enter_removeLiquidity pid \<in> set (new_events (executeBuyUSDC env cfg) m)"
    and "Enter_removeLiquidity pid \<in> set (new_events (executeBuyUSDT env cfg) m)"
    by (simp_all add: executeBuyUSDC_rebalance executeBuyUSDT_rebalance)
qed

text \<open>The fee collection fails before any transaction is submitted; the withdrawal is
  entered all the same.\<close>

theorem C7_witness:
  "currentPositionId (state demoMachineUSDC) = Some ''0xpos1''
   \<and> Call_signAndExecuteTransaction ''collectTx''
       \<notin> set (new_events (executeBuyUSDT noCollectEnv defaultConfig) demoMachineUSDC)
   \<and> fst (collectFeesAndRewards noCollectEnv defaultConfig ''0xpos1'' demoMachineUSDC) = Inr ()
   \<and> Enter_removeLiquidity ''0xpos1''
       \<in> set (new_events (executeBuyUSDT noCollectEnv defaultConfig) demoMachineUSDC)"
  using C7_collection_failure_swallowed[of noCollectEnv defaultConfig "''0xpos1''" demoMachineUSDC]
    demo_failed_collection
  by simp

text \<open>
  Claim C8. The placement fails with the insufficient-balance error exactly when the balance
  of the deposited asset, as read by \<^verbatim>\<open>getTokenBalances\<close> and parsed by
  \<^verbatim>\<open>parseFloat\<close>, is at most zero. In that case the only things that happened are the
  entry into the method and the two balance queries: no payload was built and no transaction
  was submitted.
\<close>

theorem C8_insufficient_balance_exactly:
  "((\<exists>tok. fst (addLiquidityAtBin env cfg b t m) = Inl (InsufficientBalance tok))
      = js_le (parseFloat env (available_balance env cfg t m)) (Fin 0))
   \<and> (js_le (parseFloat env (available_balance env cfg t m)) (Fin 0) \<longrightarrow>
        fst (addLiquidityAtBin env cfg b t m) = Inl (InsufficientBalance t)
      \<and> new_events (addLiquidityAtBin env cfg b t) m =
          [Enter_addLiquidityAtBin b t (currentToken (state m)),
           Call_getBalance (senderAddress cfg) USDCType,
           Call_getBalance (senderAddress cfg) USDTType])"
proof (cases rule: addLiquidityAtBin_cases[where env = env and cfg = cfg and t = t and m = m and b = b])
  case (insufficient m1)
  have "new_events (addLiquidityAtBin env cfg b t) m =
          [Enter_addLiquidityAtBin b t (currentToken (state m)),
           Call_getBalance (senderAddress cfg) USDCType,
           Call_getBalance (senderAddress cfg) USDTType]"
    by (simp add: new_events_def insufficient(2) insufficient(3))
  moreover have "fst (addLiquidityAtBin env cfg b t m) = Inl (InsufficientBalance t)"
    by (simp add: insufficient(2))
  ultimately show ?thesis using insufficient(1) by simp
next
  case (submit m1)
  have beh: "behaves (\<lambda>_. True) (\<lambda>e. \<exists>msg. e = CollaboratorError msg) (\<lambda>_. ())
          (addLiquidityAtBin_submit env cfg b t (available_balance env cfg t m))"
    by (rule behaves_addLiquidityAtBin_submit) simp_all
  have "fst (addLiquidityAtBin env cfg b t m) \<noteq> Inl (InsufficientBalance tok)" for tok
  proof
    assume a: "fst (addLiquidityAtBin env cfg b t m) = Inl (InsufficientBalance tok)"
    obtain r m2 where rm: "addLiquidityAtBin_submit env cfg b t (available_balance env cfg t m) m1
        = (r, m2)"
      by (cases "addLiquidityAtBin_submit env cfg b t (available_balance env cfg t m) m1")
    with a submit(2) have "r = Inl (InsufficientBalance tok)" by simp
    from behavesD(2)[OF beh rm this] show False by simp
  qed
  with submit(1) show ?thesis by simp
qed

text \<open>Placing USDC from a wallet that holds none.\<close>

theorem C8_witness:
  "js_le (parseFloat demoEnv (available_balance demoEnv defaultConfig USDC demoMachine)) (Fin 0)
   \<and> fst (addLiquidityAtBin demoEnv defaultConfig 5 USDC demoMachine)
       = Inl (InsufficientBalance USDC)
   \<and> new_events (addLiquidityAtBin demoEnv defaultConfig 5 USDC) demoMachine =
          [Enter_addLiquidityAtBin 5 USDC (currentToken (state demoMachine)),
           Call_getBalance (senderAddress defaultConfig) USDCType,
           Call_getBalance (senderAddress defaultConfig) USDTType]"
  using C8_insufficient_balance_exactly[of demoEnv defaultConfig 5 USDC demoMachine]
    demo_usdc_balance_is_zero
  by simp

text \<open>
  Claim C9. The claim asks that, when the balance reads fail and a position exists, the held
  asset stays as it was. The code does otherwise: the strategy holds USDC, both balance
  queries fail and the registry reports one position, yet \<^verbatim>\<open>detectInitialToken\<close> returns
  normally with USDT as the held asset. \<^verbatim>\<open>getTokenBalances\<close> has turned the failure into
  two zero balances, so the equal-balances branch runs and the \<^verbatim>\<open>catch\<close> block that
  would keep the state is never entered (\<open>detectInitialToken_only_reads_balances\<close>).
\<close>

theorem C9_read_failure_overwrites_held_asset:
  "balance_read_fails noBalanceEnv defaultConfig demoMachineUSDC
   \<and> currentToken (state demoMachineUSDC) = USDC
   \<and> fst (getExistingPositions noBalanceEnv defaultConfig demoMachineUSDC) = Inr [''0xpos1'']
   \<and> fst (detectInitialToken noBalanceEnv defaultConfig demoMachineUSDC) = Inr ()
   \<and> currentToken (state (snd (detectInitialToken noBalanceEnv defaultConfig demoMachineUSDC)))
       = USDT"
  using demo_failed_balance_read demo_failed_balance_read_detect demo_held_assets(2) by simp

text \<open>
  Claim C10. \<^verbatim>\<open>getTokenBalances\<close> never fails. When one of the two balance queries
  fails, it returns \<^verbatim>\<open>{usdc: '0', usdt: '0'}\<close>; \<^verbatim>\<open>detectInitialToken\<close> then returns
  normally with USDT as the held asset, having issued the two balance queries and nothing
  else; and, \<^verbatim>\<open>parseFloat('0')\<close> being at most zero, a placement fails with the
  insufficient-balance error.
\<close>

theorem C10_balance_read_failure:
  "(\<exists>bal. fst (getTokenBalances env cfg m) = Inr bal)
   \<and> (balance_read_fails env cfg m \<longrightarrow>
        fst (getTokenBalances env cfg m) = Inr \<lparr>usdc = ''0'', usdt = ''0''\<rparr>
      \<and> fst (detectInitialToken env cfg m) = Inr ()
      \<and> currentToken (state (snd (detectInitialToken env cfg m))) = USDT
      \<and> new_events (detectInitialToken env cfg) m =
          [Call_getBalance (senderAddress cfg) USDCType,
           Call_getBalance (senderAddress cfg) USDTType]
      \<and> (js_le (parseFloat env ''0'') (Fin 0) \<longrightarrow>
           fst (addLiquidityAtBin env cfg b t m) = Inl (InsufficientBalance t)))"
proof (intro conjI impI)
  obtain r m1 where g: "getTokenBalances env cfg m = (r, m1)"
    by (cases "getTokenBalances env cfg m")
  from getTokenBalances_run[OF g] g
  show "\<exists>bal. fst (getTokenBalances env cfg m) = Inr bal" by auto
  assume f: "balance_read_fails env cfg m"
  with getTokenBalances_run[OF g] g
  show z: "fst (getTokenBalances env cfg m) = Inr \<lparr>usdc = ''0'', usdt = ''0''\<rparr>" by auto
  show "fst (detectInitialToken env cfg m) = Inr ()"
    by (rule detectInitialToken_only_reads_balances)
  show "new_events (detectInitialToken env cfg) m =
          [Call_getBalance (senderAddress cfg) USDCType,
           Call_getBalance (senderAddress cfg) USDTType]"
    by (rule detectInitialToken_only_reads_balances)
  show "currentToken (state (snd (detectInitialToken env cfg m))) = USDT"
  proof -
    obtain bal m2 where g2: "getTokenBalances env cfg m = (Inr bal, m2)"
      and d: "detectInitialToken env cfg m =
         (Inr (), m2\<lparr>state := (state m2)\<lparr>currentToken :=
            (if js_gt (parseFloat env (usdc bal)) (parseFloat env (usdt bal)) then USDC else USDT)\<rparr>\<rparr>)"
      by (rule detectInitialToken_run)
    from g2 z have "bal = \<lparr>usdc = ''0'', usdt = ''0''\<rparr>" by simp
    then show ?thesis by (simp add: d js_gt_def js_lt_irrefl)
  qed
  assume zero: "js_le (parseFloat env ''0'') (Fin 0)"
  have ab: "available_balance env cfg t m = ''0''"
    by (simp add: available_balance_def z)
  show "fst (addLiquidityAtBin env cfg b t m) = Inl (InsufficientBalance t)"
  proof (cases rule: addLiquidityAtBin_cases[where env = env and cfg = cfg and t = t and m = m and b = b])
    case (insufficient m1)
    then show ?thesis by simp
  next
    case (submit m1)
    with zero ab show ?thesis by simp
  qed
qed

text \<open>Both balance queries fail.\<close>

theorem C10_witness:
  "balance_read_fails noBalanceEnv defaultConfig demoMachineUSDC
   \<and> js_le (parseFloat noBalanceEnv ''0'') (Fin 0)
   \<and> fst (getTokenBalances noBalanceEnv defaultConfig demoMachineUSDC)
       = Inr \<lparr>usdc = ''0'', usdt = ''0''\<rparr>
   \<and> currentToken (state (snd (detectInitialToken noBalanceEnv defaultConfig demoMachineUSDC)))
       = USDT
   \<and> fst (addLiquidityAtBin noBalanceEnv defaultConfig 5 USDC demoMachineUSDC)
       = Inl (InsufficientBalance USDC)"
  using C10_balance_read_failure[of noBalanceEnv defaultConfig demoMachineUSDC 5 USDC]
    demo_failed_balance_read(1,2)
  by blast

end
